theory Spec2Isabelle
  imports Main "HOL-Library.Char_ord" "HOL-Library.List_Lexorder" "HOL-Library.Option_ord"
    "HOL-Library.Sublist"
begin

section \<open>Data model (src/types/index.ts)\<close>

text \<open>
  Strings are lists of code units (those up to 255, the characters of the model),
  compared lexicographically as JavaScript's relational operators and IndexedDB's key
  order compare them. A timestamp is the instant
  that the ISO-8601 string of \<^verbatim>\<open>new Date().toISOString()\<close> denotes, in milliseconds since
  the epoch: two such strings (years 0000 to 9999) compare as their instants do.
  A \<^verbatim>\<open>number\<close> that holds an amount, a budget or an order is an integer; the sum and
  the difference of two numbers are the doubles nearest to the exact results
  (\<open>numberAdd\<close>, \<open>numberSub\<close> below; no result here reaches the largest double).
\<close>

type_synonym timestamp = int

datatype txType = Expense | Income

datatype catType = CatExpense | CatIncome | CatBoth

record transaction =
  tx_id :: string
  tx_amount :: int
  tx_date :: string
  tx_categoryId :: string
  tx_memo :: "string option"
  tx_type :: txType
  tx_receiptImage :: "string option"
  tx_createdAt :: timestamp
  tx_updatedAt :: timestamp
  tx_deletedAt :: "timestamp option"

record category =
  c_id :: string
  c_name :: string
  c_icon :: string
  c_color :: string
  c_type :: catType
  c_budget :: "int option"
  c_order :: int
  c_createdAt :: timestamp
  c_updatedAt :: timestamp

datatype currency = JPY | USD | EUR

datatype theme = Light | Dark | System

datatype language = Ja | En

text \<open>The type of \<^verbatim>\<open>Settings.id\<close> is the one string \<^verbatim>\<open>'main'\<close>, so the record has no
  field for it, and the settings table, keyed by it, holds at most one row.\<close>

record settings =
  s_currency :: currency
  s_weekStartsOn :: bool
  s_theme :: theme
  s_passcodeEnabled :: bool
  s_passcodeHash :: "string option"
  s_totalBudget :: "int option"
  s_language :: language
  s_createdAt :: timestamp
  s_updatedAt :: timestamp

record budget =
  b_id :: string
  b_categoryId :: string
  b_month :: string
  b_amount :: int
  b_createdAt :: timestamp
  b_updatedAt :: timestamp

datatype action = Create | Update | Delete | Restore

datatype entityType = TransactionEntity | CategoryEntity | SettingsEntity | BudgetEntity

text \<open>The payload \<^verbatim>\<open>data: any\<close> of a log entry: the object of a creating or deleting hook,
  the original object of an updating hook together with the object as modified (which
  determine the hook's \<^verbatim>\<open>modifications\<close>), or the marker \<^verbatim>\<open>{ restored: true }\<close>.\<close>

datatype logData =
    DataTransaction transaction
  | DataCategory category
  | DataTransactionUpdate transaction transaction
  | DataCategoryUpdate category category
  | DataRestored

record actionLog =
  l_id :: string
  l_action :: action
  l_entityType :: entityType
  l_entityId :: string
  l_data :: logData
  l_timestamp :: timestamp

section \<open>Tables\<close>

text \<open>
  A Dexie table is the list of its rows; the primary key of a row is read by \<open>key\<close>.
  The table never holds two rows with one key: \<open>table_add\<close> rejects a key that is
  present. Reading a table (\<^verbatim>\<open>toArray\<close>) yields the rows in primary-key order, and
  \<^verbatim>\<open>orderBy(index)\<close> yields them in the order of the index, rows with equal index values in
  primary-key order.
  A call that Dexie rejects, or that throws, yields an error instead of a value.
\<close>

datatype dbError = ConstraintError | BulkError | TypeError

definition table_keys :: "('a \<Rightarrow> string) \<Rightarrow> 'a list \<Rightarrow> string set" where
  "table_keys key rows = key ` set rows"

definition table_get :: "('a \<Rightarrow> string) \<Rightarrow> string \<Rightarrow> 'a list \<Rightarrow> 'a option" where
  "table_get key k rows = find (\<lambda>r. key r = k) rows"

definition toArray :: "('a \<Rightarrow> string) \<Rightarrow> 'a list \<Rightarrow> 'a list" where
  "toArray key rows = sort_key key rows"

definition orderBy :: "('a \<Rightarrow> 'k::linorder) \<Rightarrow> ('a \<Rightarrow> string) \<Rightarrow> 'a list \<Rightarrow> 'a list" where
  "orderBy index key rows = sort_key index (toArray key rows)"

definition table_add :: "('a \<Rightarrow> string) \<Rightarrow> 'a \<Rightarrow> 'a list \<Rightarrow> 'a list option" where
  "table_add key x rows = (if key x \<in> table_keys key rows then None else Some (rows @ [x]))"

definition bulkDelete :: "('a \<Rightarrow> string) \<Rightarrow> string list \<Rightarrow> 'a list \<Rightarrow> 'a list" where
  "bulkDelete key ks rows = filter (\<lambda>r. key r \<notin> set ks) rows"

text \<open>
  \<^verbatim>\<open>where(index).equals(value)\<close> is the collection of the rows whose indexed property is the
  given key, in primary-key order. \<^verbatim>\<open>undefined\<close> is no key of IndexedDB, and a row without
  the property is in no index: the collection that \<^verbatim>\<open>equals(undefined)\<close> returns carries a
  \<^verbatim>\<open>TypeError\<close>, and reading it (\<^verbatim>\<open>toArray\<close>) rejects with that error, whatever predicates
  \<^verbatim>\<open>and(...)\<close> has added. A collection has no method \<^verbatim>\<open>orderBy\<close> (only a table has):
  calling it throws a \<^verbatim>\<open>TypeError\<close>.
\<close>

definition whereEquals :: "('a \<Rightarrow> 'k option) \<Rightarrow> ('a \<Rightarrow> string) \<Rightarrow> 'k option \<Rightarrow> 'a list
    \<Rightarrow> dbError + 'a list" where
  "whereEquals index key v rows =
     (case v of
        None \<Rightarrow> Inl TypeError
      | Some x \<Rightarrow> Inr (filter (\<lambda>r. index r = Some x) (toArray key rows)))"

definition collectionOrderBy :: "('a \<Rightarrow> 'k) \<Rightarrow> dbError + 'a list \<Rightarrow> dbError + 'a list" where
  "collectionOrderBy index collection = Inl TypeError"

section \<open>The database (src/lib/database.ts)\<close>

text \<open>
  The state is the five tables and the number of UUIDs drawn so far. An operation runs in
  an environment that gives the clock's reading \<open>now\<close> (the clock does not advance within
  one operation) and the UUID that the \<open>k\<close>-th call of \<^verbatim>\<open>crypto.randomUUID()\<close> returns.
  The environment also holds built-in functions of the runtime that the queries, the
  purge and the form call: \<^verbatim>\<open>new Date(s).getTime()\<close> and \<^verbatim>\<open>parseInt(s)\<close>, whose \<^verbatim>\<open>NaN\<close> is
  \<open>None\<close>, and the time zone: \<open>localTZA t True\<close> is the offset of local time from UTC, in
  milliseconds, at the instant \<open>t\<close>, and \<open>localTZA t False\<close> the offset that belongs to
  the local time value \<open>t\<close> (ECMAScript's \<^verbatim>\<open>LocalTZA(t, isUTC)\<close>).
  The asynchronous calls of an operation take effect in program order, one after the
  other: the store has a single actor.
\<close>

record env =
  now :: timestamp
  randomUUID :: "nat \<Rightarrow> string"
  dateGetTime :: "string \<Rightarrow> int option"
  parseInt :: "string \<Rightarrow> int option"
  localTZA :: "timestamp \<Rightarrow> bool \<Rightarrow> int"

record database =
  transactions :: "transaction list"
  categories :: "category list"
  settings :: "settings option"
  budgets :: "budget list"
  actionLogs :: "actionLog list"
  uuidsDrawn :: nat

definition newLog :: "env \<Rightarrow> action \<Rightarrow> entityType \<Rightarrow> string \<Rightarrow> logData \<Rightarrow> database \<Rightarrow> actionLog" where
  "newLog e a et eid d s =
     \<lparr>l_id = randomUUID e (uuidsDrawn s), l_action = a, l_entityType = et,
      l_entityId = eid, l_data = d, l_timestamp = now e\<rparr>"

text \<open>\<^verbatim>\<open>logAction\<close>: when \<^verbatim>\<open>actionLogs.add\<close> rejects (the key is present), the rest of the
  function does not run; no caller awaits or catches it.\<close>

definition logAction :: "env \<Rightarrow> action \<Rightarrow> entityType \<Rightarrow> string \<Rightarrow> logData \<Rightarrow> database \<Rightarrow> database" where
  "logAction e a et eid d s =
     (let log = newLog e a et eid d s;
          s1 = s\<lparr>uuidsDrawn := Suc (uuidsDrawn s)\<rparr>
      in case table_add l_id log (actionLogs s1) of
           None \<Rightarrow> s1
         | Some logs \<Rightarrow>
             (let count = length logs
              in if count > 500 then
                   (let oldestLogs = take (count - 500) (orderBy l_timestamp l_id logs);
                        idsToDelete = map l_id oldestLogs
                    in s1\<lparr>actionLogs := bulkDelete l_id idsToDelete logs\<rparr>)
                 else s1\<lparr>actionLogs := logs\<rparr>))"

text \<open>The hooks of the constructor: every creation, modification and deletion of a row of
  \<^verbatim>\<open>transactions\<close> or \<^verbatim>\<open>categories\<close> calls \<^verbatim>\<open>logAction\<close>. A hook runs inside the
  transaction of the table operation that fires it, and that transaction spans the
  hooked table only: \<^verbatim>\<open>logAction\<close> draws its UUID and builds the entry,
  \<^verbatim>\<open>this.actionLogs.add(log)\<close> rejects, the rest of the function does not run, and nothing
  is written to the log. \<^verbatim>\<open>update\<close> modifies the row with the given key, if there is one
  and the changes alter it.\<close>

definition logActionInHook :: "env \<Rightarrow> action \<Rightarrow> entityType \<Rightarrow> string \<Rightarrow> logData \<Rightarrow> database \<Rightarrow> database" where
  "logActionInHook e a et eid d s =
     (let log = newLog e a et eid d s;
          s1 = s\<lparr>uuidsDrawn := Suc (uuidsDrawn s)\<rparr>
      in s1)"

definition table_update :: "('a \<Rightarrow> string) \<Rightarrow> string \<Rightarrow> ('a \<Rightarrow> 'a) \<Rightarrow> 'a list \<Rightarrow> 'a list" where
  "table_update key k changes rows = map (\<lambda>r. if key r = k then changes r else r) rows"

definition transactionsUpdate :: "env \<Rightarrow> string \<Rightarrow> (transaction \<Rightarrow> transaction) \<Rightarrow> database \<Rightarrow> database" where
  "transactionsUpdate e k changes s =
     (case table_get tx_id k (transactions s) of
        None \<Rightarrow> s
      | Some obj \<Rightarrow>
          if changes obj = obj then s
          else logActionInHook e Update TransactionEntity (tx_id obj)
                 (DataTransactionUpdate obj (changes obj))
                 (s\<lparr>transactions := table_update tx_id k changes (transactions s)\<rparr>))"

definition categoriesUpdate :: "env \<Rightarrow> string \<Rightarrow> (category \<Rightarrow> category) \<Rightarrow> database \<Rightarrow> database" where
  "categoriesUpdate e k changes s =
     (case table_get c_id k (categories s) of
        None \<Rightarrow> s
      | Some obj \<Rightarrow>
          if changes obj = obj then s
          else logActionInHook e Update CategoryEntity (c_id obj)
                 (DataCategoryUpdate obj (changes obj))
                 (s\<lparr>categories := table_update c_id k changes (categories s)\<rparr>))"

definition transactionsDelete :: "env \<Rightarrow> transaction list \<Rightarrow> database \<Rightarrow> database" where
  "transactionsDelete e objs s =
     fold (\<lambda>obj. logActionInHook e Delete TransactionEntity (tx_id obj) (DataTransaction obj)) objs
       (s\<lparr>transactions := bulkDelete tx_id (map tx_id objs) (transactions s)\<rparr>)"

definition categoriesDelete :: "env \<Rightarrow> category list \<Rightarrow> database \<Rightarrow> database" where
  "categoriesDelete e objs s =
     fold (\<lambda>obj. logActionInHook e Delete CategoryEntity (c_id obj) (DataCategory obj)) objs
       (s\<lparr>categories := bulkDelete c_id (map c_id objs) (categories s)\<rparr>)"

text \<open>\<^verbatim>\<open>bulkAdd\<close> adds the objects in turn; an object whose key is present is not added, the
  others are, and the call then rejects with a \<^verbatim>\<open>BulkError\<close>.\<close>

fun bulkAdd :: "('a \<Rightarrow> string) \<Rightarrow> 'a list \<Rightarrow> 'a list \<Rightarrow> 'a list \<times> bool" where
  "bulkAdd key [] rows = (rows, True)"
| "bulkAdd key (x # xs) rows =
     (case table_add key x rows of
        None \<Rightarrow> (fst (bulkAdd key xs rows), False)
      | Some rows' \<Rightarrow> bulkAdd key xs rows')"

definition transactionsBulkAdd :: "env \<Rightarrow> transaction list \<Rightarrow> database \<Rightarrow> database \<times> dbError option" where
  "transactionsBulkAdd e objs s =
     (let s1 = fold (\<lambda>obj. logActionInHook e Create TransactionEntity (tx_id obj) (DataTransaction obj)) objs s;
          (rows, ok) = bulkAdd tx_id objs (transactions s1)
      in (s1\<lparr>transactions := rows\<rparr>, if ok then None else Some BulkError))"

definition categoriesBulkAdd :: "env \<Rightarrow> category list \<Rightarrow> database \<Rightarrow> database \<times> dbError option" where
  "categoriesBulkAdd e objs s =
     (let s1 = fold (\<lambda>obj. logActionInHook e Create CategoryEntity (c_id obj) (DataCategory obj)) objs s;
          (rows, ok) = bulkAdd c_id objs (categories s1)
      in (s1\<lparr>categories := rows\<rparr>, if ok then None else Some BulkError))"

definition budgetsBulkAdd :: "budget list \<Rightarrow> database \<Rightarrow> database \<times> dbError option" where
  "budgetsBulkAdd objs s =
     (let (rows, ok) = bulkAdd b_id objs (budgets s)
      in (s\<lparr>budgets := rows\<rparr>, if ok then None else Some BulkError))"

definition categoriesAdd :: "env \<Rightarrow> category \<Rightarrow> database \<Rightarrow> database \<times> dbError option" where
  "categoriesAdd e obj s =
     (let s1 = logActionInHook e Create CategoryEntity (c_id obj) (DataCategory obj) s
      in case table_add c_id obj (categories s1) of
           None \<Rightarrow> (s1, Some ConstraintError)
         | Some rows \<Rightarrow> (s1\<lparr>categories := rows\<rparr>, None))"

subsection \<open>Soft delete, restore, purge\<close>

definition softDeleteTransaction :: "env \<Rightarrow> string \<Rightarrow> database \<Rightarrow> database" where
  "softDeleteTransaction e ident s =
     (case table_get tx_id ident (transactions s) of
        None \<Rightarrow> s
      | Some transaction \<Rightarrow>
          transactionsUpdate e ident
            (\<lambda>t. t\<lparr>tx_deletedAt := Some (now e), tx_updatedAt := now e\<rparr>) s)"

definition restoreTransaction :: "env \<Rightarrow> string \<Rightarrow> database \<Rightarrow> database" where
  "restoreTransaction e ident s =
     logAction e Restore TransactionEntity ident DataRestored
       (transactionsUpdate e ident
          (\<lambda>t. t\<lparr>tx_deletedAt := None, tx_updatedAt := now e\<rparr>) s)"

definition msPerDay :: int where
  "msPerDay = 86400000"

text \<open>\<^verbatim>\<open>where('deletedAt').below(cutoffDate)\<close>: the rows with a \<^verbatim>\<open>deletedAt\<close> below the bound,
  in the order of that index; a row without \<^verbatim>\<open>deletedAt\<close> is not in the index.
  \<^verbatim>\<open>setDate(getDate() - 30)\<close> works on the local calendar: the local time of the clock's
  reading moves back by thirty days of \<open>msPerDay\<close> milliseconds, to the same time of day,
  and the result is read as a local time again.\<close>

definition LocalTime :: "env \<Rightarrow> timestamp \<Rightarrow> timestamp" where
  "LocalTime e t = t + localTZA e t True"

definition UTC :: "env \<Rightarrow> timestamp \<Rightarrow> timestamp" where
  "UTC e t = t - localTZA e t False"

definition whereDeletedAtBelow :: "timestamp \<Rightarrow> transaction list \<Rightarrow> transaction list" where
  "whereDeletedAtBelow cutoffDate rows =
     filter (\<lambda>t. case tx_deletedAt t of None \<Rightarrow> False | Some d \<Rightarrow> d < cutoffDate)
       (orderBy tx_deletedAt tx_id rows)"

definition permanentlyDeleteOldTrash :: "env \<Rightarrow> database \<Rightarrow> database" where
  "permanentlyDeleteOldTrash e s =
     (let thirtyDaysAgo = UTC e (LocalTime e (now e) - 30 * msPerDay);
          cutoffDate = thirtyDaysAgo
      in transactionsDelete e (whereDeletedAtBelow cutoffDate (transactions s)) s)"

definition getActiveTransactions :: "database \<Rightarrow> dbError + transaction list" where
  "getActiveTransactions s = whereEquals tx_deletedAt tx_id None (transactions s)"

subsection \<open>Export and import\<close>

record snapshotData =
  data_transactions :: "transaction list option"
  data_categories :: "category list option"
  data_settings :: "settings list option"
  data_budgets :: "budget list option"

record snapshot =
  version :: int
  exportDate :: timestamp
  data :: snapshotData

datatype importMode = Overwrite | Merge

definition exportData :: "env \<Rightarrow> database \<Rightarrow> snapshot" where
  "exportData e s =
     \<lparr>version = 1, exportDate = now e,
      data = \<lparr>data_transactions = Some (toArray tx_id (transactions s)),
              data_categories = Some (toArray c_id (categories s)),
              data_settings = Some (case settings s of None \<Rightarrow> [] | Some st \<Rightarrow> [st]),
              data_budgets = Some (toArray b_id (budgets s))\<rparr>\<rparr>"

text \<open>\<^verbatim>\<open>settings.update('main', settings)\<close> sets every property that the given object has:
  an optional property that it lacks keeps its stored value.\<close>

definition settingsUpdate :: "settings \<Rightarrow> settings \<Rightarrow> settings" where
  "settingsUpdate changes existing =
     changes\<lparr>s_passcodeHash :=
               (case s_passcodeHash changes of None \<Rightarrow> s_passcodeHash existing | Some h \<Rightarrow> Some h),
             s_totalBudget :=
               (case s_totalBudget changes of None \<Rightarrow> s_totalBudget existing | Some b \<Rightarrow> Some b)\<rparr>"

definition andThen :: "database \<times> dbError option \<Rightarrow> (database \<Rightarrow> database \<times> dbError option)
    \<Rightarrow> database \<times> dbError option" where
  "andThen r f = (case r of (s, None) \<Rightarrow> f s | (s, Some err) \<Rightarrow> (s, Some err))"

definition importSettings :: "snapshotData \<Rightarrow> database \<Rightarrow> database" where
  "importSettings d s =
     (case data_settings d of
        Some (st # rest) \<Rightarrow>
          (case settings s of
             Some existing \<Rightarrow> s\<lparr>settings := Some (settingsUpdate st existing)\<rparr>
           | None \<Rightarrow> s\<lparr>settings := Some st\<rparr>)
      | _ \<Rightarrow> s)"

text \<open>\<^verbatim>\<open>clear()\<close> deletes every row; on a table with a deleting hook the hook sees each.\<close>

definition transactionsClear :: "env \<Rightarrow> database \<Rightarrow> database" where
  "transactionsClear e s = transactionsDelete e (toArray tx_id (transactions s)) s"

definition categoriesClear :: "env \<Rightarrow> database \<Rightarrow> database" where
  "categoriesClear e s = categoriesDelete e (toArray c_id (categories s)) s"

definition budgetsClear :: "database \<Rightarrow> database" where
  "budgetsClear s = s\<lparr>budgets := []\<rparr>"

definition importData :: "env \<Rightarrow> snapshot \<Rightarrow> importMode \<Rightarrow> database \<Rightarrow> database \<times> dbError option" where
  "importData e snap mode s =
     (let s1 = (if mode = Overwrite
                then budgetsClear (categoriesClear e (transactionsClear e s))
                else s)
      in andThen (case data_categories (data snap) of
                    Some cs \<Rightarrow> categoriesBulkAdd e cs s1 | None \<Rightarrow> (s1, None))
        (\<lambda>s2. andThen (case data_transactions (data snap) of
                    Some ts \<Rightarrow> transactionsBulkAdd e ts s2 | None \<Rightarrow> (s2, None))
        (\<lambda>s3. andThen (case data_budgets (data snap) of
                    Some bs \<Rightarrow> budgetsBulkAdd bs s3 | None \<Rightarrow> (s3, None))
        (\<lambda>s4. (importSettings (data snap) s4, None)))))"

section \<open>Queries and statistics (hooks/useDatabase)\<close>

subsection \<open>JavaScript values\<close>

text \<open>A string is truthy when it is defined and not empty, a number when it is defined
  and not zero; \<^verbatim>\<open>a || b\<close> is \<open>a\<close> when \<open>a\<close> is truthy and \<open>b\<close> otherwise.\<close>

definition truthyString :: "string option \<Rightarrow> bool" where
  "truthyString v = (case v of None \<Rightarrow> False | Some x \<Rightarrow> x \<noteq> [])"

definition orString :: "string option \<Rightarrow> string \<Rightarrow> string" where
  "orString v d = (case v of None \<Rightarrow> d | Some x \<Rightarrow> if x = [] then d else x)"

definition orNumber :: "int option \<Rightarrow> int \<Rightarrow> int" where
  "orNumber v d = (case v of None \<Rightarrow> d | Some x \<Rightarrow> if x = 0 then d else x)"

definition MAX_SAFE_INTEGER :: int where
  "MAX_SAFE_INTEGER = 9007199254740991"

text \<open>A double holds an integer of at most 53 bits exactly; an integer of more bits is
  rounded to the nearest one whose bits below the leading 53 are zero, a tie to the even
  one. \<^verbatim>\<open>a + b\<close> and \<^verbatim>\<open>a - b\<close> are the exact results rounded so.\<close>

function bitLength :: "int \<Rightarrow> nat" where
  "bitLength n = (if n \<le> 0 then 0 else Suc (bitLength (n div 2)))"
  by pat_completeness auto
termination
  by (relation "measure nat") auto

definition roundToDouble :: "int \<Rightarrow> int" where
  "roundToDouble x =
     (let m = \<bar>x\<bar>
      in if bitLength m \<le> 53 then x
         else
           (let k = bitLength m - 53;
                q = m div 2 ^ k;
                r = m mod 2 ^ k;
                half = 2 ^ (k - 1);
                q' = (if r > half \<or> (r = half \<and> odd q) then q + 1 else q)
            in sgn x * (q' * 2 ^ k)))"

definition numberAdd :: "int \<Rightarrow> int \<Rightarrow> int" where
  "numberAdd a b = roundToDouble (a + b)"

definition numberSub :: "int \<Rightarrow> int \<Rightarrow> int" where
  "numberSub a b = roundToDouble (a - b)"

text \<open>\<^verbatim>\<open>toLowerCase\<close> and \<^verbatim>\<open>trim\<close> on the code units up to 255: the upper-case letters are
  A to Z and U+00C0 to U+00DE without U+00D7; the white space is U+0009 to U+000D,
  U+0020 and U+00A0.\<close>

definition lowerChar :: "char \<Rightarrow> char" where
  "lowerChar c =
     (let n = (of_char c :: nat)
      in if (65 \<le> n \<and> n \<le> 90) \<or> (192 \<le> n \<and> n \<le> 222 \<and> n \<noteq> 215)
         then char_of (n + 32) else c)"

definition toLowerCase :: "string \<Rightarrow> string" where
  "toLowerCase str = map lowerChar str"

definition isWhiteSpace :: "char \<Rightarrow> bool" where
  "isWhiteSpace c =
     (let n = (of_char c :: nat) in (9 \<le> n \<and> n \<le> 13) \<or> n = 32 \<or> n = 160)"

definition trim :: "string \<Rightarrow> string" where
  "trim str = rev (dropWhile isWhiteSpace (rev (dropWhile isWhiteSpace str)))"

text \<open>\<^verbatim>\<open>str.includes(k)\<close> is \<^term>\<open>sublist k str\<close>.
  \<^verbatim>\<open>Array.prototype.sort\<close> is stable: it is modelled by an insertion sort that keeps the
  order of the elements which the comparison function does not separate (for a
  comparison function that is no consistent order an engine chooses the order; the
  elements are the same). \<^verbatim>\<open>slice(0, end)\<close> counts a negative \<open>end\<close> from the end of the
  array.\<close>

fun insertBy :: "('a \<Rightarrow> 'a \<Rightarrow> int) \<Rightarrow> 'a \<Rightarrow> 'a list \<Rightarrow> 'a list" where
  "insertBy cmp x [] = [x]"
| "insertBy cmp x (y # ys) = (if cmp x y \<le> 0 then x # y # ys else y # insertBy cmp x ys)"

definition arraySort :: "('a \<Rightarrow> 'a \<Rightarrow> int) \<Rightarrow> 'a list \<Rightarrow> 'a list" where
  "arraySort cmp xs = foldr (insertBy cmp) xs []"

definition slice0 :: "int \<Rightarrow> 'a list \<Rightarrow> 'a list" where
  "slice0 end xs = take (nat (if end < 0 then int (length xs) + end else end)) xs"

text \<open>A \<^verbatim>\<open>Set\<close> and a \<^verbatim>\<open>Map\<close> keep their elements and keys in the order of first insertion.\<close>

definition newSet :: "'a list \<Rightarrow> 'a list" where
  "newSet xs = foldl (\<lambda>acc x. if x \<in> set acc then acc else acc @ [x]) [] xs"

definition mapGet :: "('k \<times> 'v) list \<Rightarrow> 'k \<Rightarrow> 'v option" where
  "mapGet m k = map_of m k"

definition mapSet :: "'k \<Rightarrow> 'v \<Rightarrow> ('k \<times> 'v) list \<Rightarrow> ('k \<times> 'v) list" where
  "mapSet k v m =
     (if k \<in> fst ` set m then map (\<lambda>kv. if fst kv = k then (k, v) else kv) m
      else m @ [(k, v)])"

definition newMap :: "('k \<times> 'v) list \<Rightarrow> ('k \<times> 'v) list" where
  "newMap kvs = foldl (\<lambda>m kv. mapSet (fst kv) (snd kv) m) [] kvs"

subsection \<open>useTransactions\<close>

record filterOptions =
  dateFrom :: "string option"
  dateTo :: "string option"
  categoryIds :: "string list option"
  amountMin :: "int option"
  amountMax :: "int option"
  keyword :: "string option"
  filterType :: "txType option"

datatype sortField = SortDate | SortAmount | SortCategory | SortCreatedAt

datatype sortDirection = Asc | Desc

record sortOptions =
  field :: sortField
  direction :: sortDirection

text \<open>The five optional restrictions of the query, in the order of the source; each
  \<^verbatim>\<open>query.and(...)\<close> keeps the rows that satisfy its predicate.\<close>

definition filterDate :: "filterOptions \<Rightarrow> transaction list \<Rightarrow> transaction list" where
  "filterDate filters query =
     (if truthyString (dateFrom filters) \<or> truthyString (dateTo filters) then
        (let from = orString (dateFrom filters) ''0000-01-01'';
             to = orString (dateTo filters) ''9999-12-31''
         in filter (\<lambda>transaction. tx_date transaction \<ge> from \<and> tx_date transaction \<le> to) query)
      else query)"

definition filterCategoryIds :: "filterOptions \<Rightarrow> transaction list \<Rightarrow> transaction list" where
  "filterCategoryIds filters query =
     (case categoryIds filters of
        Some ids \<Rightarrow>
          if length ids > 0
          then filter (\<lambda>transaction. tx_categoryId transaction \<in> set ids) query
          else query
      | None \<Rightarrow> query)"

definition filterAmount :: "filterOptions \<Rightarrow> transaction list \<Rightarrow> transaction list" where
  "filterAmount filters query =
     (if amountMin filters \<noteq> None \<or> amountMax filters \<noteq> None then
        (let lo = orNumber (amountMin filters) 0;
             hi = orNumber (amountMax filters) MAX_SAFE_INTEGER
         in filter (\<lambda>transaction. tx_amount transaction \<ge> lo \<and> tx_amount transaction \<le> hi) query)
      else query)"

definition filterKeyword :: "filterOptions \<Rightarrow> transaction list \<Rightarrow> transaction list" where
  "filterKeyword filters query =
     (if truthyString (keyword filters) then
        (let kw = toLowerCase (orString (keyword filters) [])
         in filter (\<lambda>transaction.
              case tx_memo transaction of
                None \<Rightarrow> False
              | Some memo \<Rightarrow> sublist kw (toLowerCase memo)) query)
      else query)"

definition filterByType :: "filterOptions \<Rightarrow> transaction list \<Rightarrow> transaction list" where
  "filterByType filters query =
     (case filterType filters of
        Some ty \<Rightarrow> filter (\<lambda>transaction. tx_type transaction = ty) query
      | None \<Rightarrow> query)"

definition applyFilters :: "filterOptions \<Rightarrow> transaction list \<Rightarrow> transaction list" where
  "applyFilters filters query =
     (let query = filterDate filters query;
          query = filterCategoryIds filters query;
          query = filterAmount filters query;
          query = filterKeyword filters query;
          query = filterByType filters query
      in query)"

definition compareValues :: "('a \<Rightarrow> 'k::linorder) \<Rightarrow> sortDirection \<Rightarrow> 'a \<Rightarrow> 'a \<Rightarrow> int" where
  "compareValues val dir a b =
     (if val a < val b then (if dir = Asc then - 1 else 1)
      else if val a > val b then (if dir = Asc then 1 else - 1)
      else 0)"

definition compareDefault :: "env \<Rightarrow> transaction \<Rightarrow> transaction \<Rightarrow> int" where
  "compareDefault e a b =
     (case (dateGetTime e (tx_date b), dateGetTime e (tx_date a)) of
        (Some tb, Some ta) \<Rightarrow> numberSub tb ta
      | _ \<Rightarrow> 0)"

definition applySort :: "env \<Rightarrow> sortOptions option \<Rightarrow> transaction list \<Rightarrow> transaction list" where
  "applySort e sortOpts results =
     (case sortOpts of
        Some so \<Rightarrow>
          (case field so of
             SortDate \<Rightarrow> arraySort (compareValues tx_date (direction so)) results
           | SortAmount \<Rightarrow> arraySort (compareValues tx_amount (direction so)) results
           | SortCreatedAt \<Rightarrow> arraySort (compareValues tx_createdAt (direction so)) results
           | SortCategory \<Rightarrow> arraySort (compareValues tx_categoryId (direction so)) results)
      | None \<Rightarrow> arraySort (compareDefault e) results)"

text \<open>\<^verbatim>\<open>useTransactions\<close>: the query starts from \<^verbatim>\<open>where('deletedAt').equals(undefined)\<close>;
  \<^verbatim>\<open>await query.toArray()\<close> rejects when the collection carries an error.\<close>

definition useTransactions :: "env \<Rightarrow> filterOptions option \<Rightarrow> sortOptions option \<Rightarrow> database
    \<Rightarrow> dbError + transaction list" where
  "useTransactions e filters sortOpts s =
     (case whereEquals tx_deletedAt tx_id None (transactions s) of
        Inl err \<Rightarrow> Inl err
      | Inr query \<Rightarrow>
          (let query = (case filters of Some f \<Rightarrow> applyFilters f query | None \<Rightarrow> query);
               results = query
           in Inr (applySort e sortOpts results)))"

subsection \<open>useCategories, useRecentCategories\<close>

definition catTypeOf :: "txType \<Rightarrow> catType" where
  "catTypeOf ty = (case ty of Expense \<Rightarrow> CatExpense | Income \<Rightarrow> CatIncome)"

definition useCategories :: "txType option \<Rightarrow> database \<Rightarrow> category list" where
  "useCategories ty s =
     (let query = orderBy c_order c_id (categories s)
      in case ty of
           Some t \<Rightarrow> filter (\<lambda>cat. c_type cat = catTypeOf t \<or> c_type cat = CatBoth) query
         | None \<Rightarrow> query)"

definition bulkGet :: "('a \<Rightarrow> string) \<Rightarrow> string list \<Rightarrow> 'a list \<Rightarrow> 'a option list" where
  "bulkGet key ks rows = map (\<lambda>k. table_get key k rows) ks"

definition filterBoolean :: "'a option list \<Rightarrow> 'a list" where
  "filterBoolean xs = List.map_filter (\<lambda>x. x) xs"

text \<open>\<^verbatim>\<open>useRecentCategories\<close>, lines 111 to 115: from the array of recent transactions to
  the categories.\<close>

definition recentCategoriesOf :: "int \<Rightarrow> transaction list \<Rightarrow> database \<Rightarrow> category list" where
  "recentCategoriesOf limit recentTransactions s =
     (let categoryIds = newSet (map tx_categoryId recentTransactions);
          limitedIds = slice0 limit categoryIds;
          cats = bulkGet c_id limitedIds (categories s)
      in filterBoolean cats)"

text \<open>Lines 103 to 109 call \<^verbatim>\<open>orderBy('createdAt')\<close> on the collection that
  \<^verbatim>\<open>where('deletedAt').equals(undefined)\<close> returns; \<^verbatim>\<open>reverse().limit(50).toArray()\<close> would
  follow.\<close>

definition useRecentCategories :: "int \<Rightarrow> database \<Rightarrow> dbError + category list" where
  "useRecentCategories limit s =
     (case collectionOrderBy tx_createdAt
             (whereEquals tx_deletedAt tx_id None (transactions s)) of
        Inl err \<Rightarrow> Inl err
      | Inr ordered \<Rightarrow>
          (let recentTransactions = take 50 (rev ordered)
           in Inr (recentCategoriesOf limit recentTransactions s)))"

subsection \<open>useMonthlyStats, useCategoryStats\<close>

record monthlyStats =
  income :: int
  expense :: int
  balance :: int
  transactionCount :: nat

definition monthTransactions :: "string \<Rightarrow> database \<Rightarrow> dbError + transaction list" where
  "monthTransactions month s =
     (let startDate = month @ ''-01'';
          endDate = month @ ''-31''
      in case whereEquals tx_deletedAt tx_id None (transactions s) of
           Inl err \<Rightarrow> Inl err
         | Inr query \<Rightarrow> Inr (filter (\<lambda>t. tx_date t \<ge> startDate \<and> tx_date t \<le> endDate) query))"

text \<open>\<^verbatim>\<open>useMonthlyStats\<close>, lines 130 to 143: from the array of the month's transactions to
  the statistics.\<close>

definition monthlyStatsOf :: "transaction list \<Rightarrow> monthlyStats" where
  "monthlyStatsOf txs =
     (let income = foldl (\<lambda>sum t. numberAdd sum (tx_amount t)) 0
                     (filter (\<lambda>t. tx_type t = Income) txs);
          expense = foldl (\<lambda>sum t. numberAdd sum (tx_amount t)) 0
                      (filter (\<lambda>t. tx_type t = Expense) txs)
      in \<lparr>income = income, expense = expense, balance = numberSub income expense,
          transactionCount = length txs\<rparr>)"

definition useMonthlyStats :: "string \<Rightarrow> database \<Rightarrow> dbError + monthlyStats" where
  "useMonthlyStats month s =
     (case monthTransactions month s of
        Inl err \<Rightarrow> Inl err
      | Inr txs \<Rightarrow> Inr (monthlyStatsOf txs))"

record categoryStat =
  cs_categoryId :: string
  cs_categoryName :: string
  cs_amount :: int
  cs_count :: nat

definition statsStep :: "(string \<times> category) list \<Rightarrow> (string \<times> categoryStat) list \<Rightarrow> transaction
    \<Rightarrow> (string \<times> categoryStat) list" where
  "statsStep categoryMap stats transaction =
     (case mapGet categoryMap (tx_categoryId transaction) of
        None \<Rightarrow> stats
      | Some category \<Rightarrow>
          (let existing =
                 (case mapGet stats (tx_categoryId transaction) of
                    Some st \<Rightarrow> st
                  | None \<Rightarrow> \<lparr>cs_categoryId = tx_categoryId transaction,
                             cs_categoryName = c_name category,
                             cs_amount = 0, cs_count = 0\<rparr>);
               existing = existing\<lparr>cs_amount := numberAdd (cs_amount existing) (tx_amount transaction)\<rparr>;
               existing = existing\<lparr>cs_count := cs_count existing + 1\<rparr>
           in mapSet (tx_categoryId transaction) existing stats))"

text \<open>\<^verbatim>\<open>useCategoryStats\<close>, lines 158 to 184: from the array of the month's transactions
  and the array of the categories to the sorted entries.\<close>

definition categoryStatsOf :: "transaction list \<Rightarrow> category list \<Rightarrow> categoryStat list" where
  "categoryStatsOf txs cats =
     (let categoryMap = newMap (map (\<lambda>c. (c_id c, c)) cats);
          stats = foldl (statsStep categoryMap) [] txs
      in arraySort (\<lambda>a b. numberSub (cs_amount b) (cs_amount a)) (map snd stats))"

definition useCategoryStats :: "string \<Rightarrow> database \<Rightarrow> dbError + categoryStat list" where
  "useCategoryStats month s =
     (case monthTransactions month s of
        Inl err \<Rightarrow> Inl err
      | Inr txs \<Rightarrow> Inr (categoryStatsOf txs (toArray c_id (categories s))))"

subsection \<open>createCategory, updateCategory\<close>

record categoryInput =
  in_name :: string
  in_icon :: string
  in_color :: string
  in_type :: catType
  in_budget :: "int option"
  in_order :: int

definition createCategory :: "env \<Rightarrow> categoryInput \<Rightarrow> database \<Rightarrow> database \<times> dbError option" where
  "createCategory e cat s =
     (let newCategory =
            \<lparr>c_id = randomUUID e (uuidsDrawn s), c_name = in_name cat, c_icon = in_icon cat,
             c_color = in_color cat, c_type = in_type cat, c_budget = in_budget cat,
             c_order = in_order cat, c_createdAt = now e, c_updatedAt = now e\<rparr>
      in categoriesAdd e newCategory (s\<lparr>uuidsDrawn := Suc (uuidsDrawn s)\<rparr>))"

definition updateCategory :: "env \<Rightarrow> string \<Rightarrow> categoryInput \<Rightarrow> database \<Rightarrow> database" where
  "updateCategory e ident updates s =
     categoriesUpdate e ident
       (\<lambda>c. c\<lparr>c_name := in_name updates, c_icon := in_icon updates, c_color := in_color updates,
              c_type := in_type updates, c_budget := in_budget updates,
              c_order := in_order updates, c_updatedAt := now e\<rparr>) s"

section \<open>The category form (components/categories/CategoryForm.tsx)\<close>

record formData =
  name :: string
  icon :: string
  color :: string
  formType :: catType
  budget :: string

datatype nameError = NameRequired | NameTooLong | NameDuplicate

datatype budgetError = BudgetInvalid | BudgetNegative | BudgetTooLarge

record formErrors =
  nameErr :: "nameError option"
  budgetErr :: "budgetError option"

text \<open>The form reads \<open>cats\<close>, the value of \<^verbatim>\<open>useCategories()\<close>, which is undefined until the
  live query has delivered, and \<open>cat\<close>, the category being edited, if any.\<close>

definition validateName :: "formData \<Rightarrow> category option \<Rightarrow> category list option \<Rightarrow> nameError option" where
  "validateName formData cat cats =
     (if trim (name formData) = [] then Some NameRequired
      else if length (trim (name formData)) > 20 then Some NameTooLong
      else
        (let existingCategory =
               (case cats of
                  None \<Rightarrow> None
                | Some cs \<Rightarrow>
                    find (\<lambda>c. Some (c_id c) \<noteq> map_option c_id cat \<and>
                              toLowerCase (c_name c) = toLowerCase (trim (name formData))) cs)
         in if existingCategory \<noteq> None then Some NameDuplicate else None))"

definition validateBudget :: "env \<Rightarrow> formData \<Rightarrow> budgetError option" where
  "validateBudget e formData =
     (if budget formData \<noteq> [] then
        (case parseInt e (budget formData) of
           None \<Rightarrow> Some BudgetInvalid
         | Some b \<Rightarrow>
             if b < 0 then Some BudgetNegative
             else if b > 9999999 then Some BudgetTooLarge
             else None)
      else None)"

definition validateForm :: "env \<Rightarrow> formData \<Rightarrow> category option \<Rightarrow> category list option
    \<Rightarrow> formErrors \<times> bool" where
  "validateForm e formData cat cats =
     (let newErrors = \<lparr>nameErr = validateName formData cat cats,
                       budgetErr = validateBudget e formData\<rparr>
      in (newErrors, nameErr newErrors = None \<and> budgetErr newErrors = None))"

datatype submitOutcome = Rejected formErrors | Updated | Created | SaveFailed

definition handleSubmit :: "env \<Rightarrow> formData \<Rightarrow> category option \<Rightarrow> category list option
    \<Rightarrow> database \<Rightarrow> database \<times> submitOutcome" where
  "handleSubmit e formData cat cats s =
     (case validateForm e formData cat cats of
        (errors, False) \<Rightarrow> (s, Rejected errors)
      | (errors, True) \<Rightarrow>
          (let categoryData =
                 \<lparr>in_name = trim (name formData), in_icon = icon formData,
                  in_color = color formData, in_type = formType formData,
                  in_budget = (if budget formData \<noteq> [] then parseInt e (budget formData) else None),
                  in_order =
                    (case cat of
                       Some c \<Rightarrow> if c_order c \<noteq> 0 then c_order c
                                 else int (case cats of Some cs \<Rightarrow> length cs | None \<Rightarrow> 0) + 1
                     | None \<Rightarrow> int (case cats of Some cs \<Rightarrow> length cs | None \<Rightarrow> 0) + 1)\<rparr>
           in case cat of
                Some c \<Rightarrow> (updateCategory e (c_id c) categoryData s, Updated)
              | None \<Rightarrow>
                  (case createCategory e categoryData s of
                     (s', None) \<Rightarrow> (s', Created)
                   | (s', Some err) \<Rightarrow> (s', SaveFailed))))"

section \<open>Predicates of the statements\<close>

subsection \<open>The conjunction of the predicates that \<open>applyFilters\<close> installs\<close>

definition matchesFilters :: "filterOptions \<Rightarrow> transaction \<Rightarrow> bool" where
  "matchesFilters filters t =
     ((truthyString (dateFrom filters) \<or> truthyString (dateTo filters) \<longrightarrow>
         orString (dateFrom filters) ''0000-01-01'' \<le> tx_date t
         \<and> tx_date t \<le> orString (dateTo filters) ''9999-12-31'')
      \<and> (case categoryIds filters of
            Some ids \<Rightarrow> ids \<noteq> [] \<longrightarrow> tx_categoryId t \<in> set ids
          | None \<Rightarrow> True)
      \<and> (amountMin filters \<noteq> None \<or> amountMax filters \<noteq> None \<longrightarrow>
            orNumber (amountMin filters) 0 \<le> tx_amount t
            \<and> tx_amount t \<le> orNumber (amountMax filters) MAX_SAFE_INTEGER)
      \<and> (truthyString (keyword filters) \<longrightarrow>
            (case tx_memo t of
               None \<Rightarrow> False
             | Some memo \<Rightarrow> sublist (toLowerCase (orString (keyword filters) [])) (toLowerCase memo)))
      \<and> (case filterType filters of Some ty \<Rightarrow> tx_type t = ty | None \<Rightarrow> True))"

subsection \<open>The filters as the specification words them\<close>

text \<open>A transaction satisfies every active filter: its date lies in \<open>[from, to]\<close>, an open
  side being the earliest or latest date; its category is one of the given ids; its
  amount lies in \<open>[min, max]\<close>, a side that is not given being open; its memo contains
  the keyword, case ignored; its type is the given one.\<close>

definition satisfiesFilters :: "filterOptions \<Rightarrow> transaction \<Rightarrow> bool" where
  "satisfiesFilters filters t =
     ((truthyString (dateFrom filters) \<or> truthyString (dateTo filters) \<longrightarrow>
         orString (dateFrom filters) ''0000-01-01'' \<le> tx_date t
         \<and> tx_date t \<le> orString (dateTo filters) ''9999-12-31'')
      \<and> (case categoryIds filters of
            Some ids \<Rightarrow> ids \<noteq> [] \<longrightarrow> tx_categoryId t \<in> set ids
          | None \<Rightarrow> True)
      \<and> (case amountMin filters of Some lo \<Rightarrow> lo \<le> tx_amount t | None \<Rightarrow> True)
      \<and> (case amountMax filters of Some hi \<Rightarrow> tx_amount t \<le> hi | None \<Rightarrow> True)
      \<and> (truthyString (keyword filters) \<longrightarrow>
            (\<exists>memo ps ss. tx_memo t = Some memo
               \<and> toLowerCase memo = ps @ toLowerCase (orString (keyword filters) []) @ ss))
      \<and> (case filterType filters of Some ty \<Rightarrow> tx_type t = ty | None \<Rightarrow> True))"

subsection \<open>Expiry as the specification words it\<close>

text \<open>A transaction is expired at \<open>now\<close> when its \<^verbatim>\<open>deletedAt\<close> is set and older than \<open>now\<close>
  minus thirty days.\<close>

definition isExpired :: "timestamp \<Rightarrow> transaction \<Rightarrow> bool" where
  "isExpired t_now t =
     (case tx_deletedAt t of None \<Rightarrow> False | Some d \<Rightarrow> d < t_now - 30 * msPerDay)"

text \<open>The change of the local offset from UTC between the local time thirty days before
  the clock's reading and the reading itself: zero where the zone keeps one offset, an
  hour more or less across a change to or from summer time.\<close>

definition offsetChange :: "env \<Rightarrow> int" where
  "offsetChange e =
     localTZA e (now e) True - localTZA e (LocalTime e (now e) - 30 * msPerDay) False"

section \<open>Example states\<close>

definition exampleEnv :: env where
  "exampleEnv =
     \<lparr>now = 1700000000000,
      randomUUID = (\<lambda>k. ''uuid-'' @ replicate k (CHR ''0'')),
      dateGetTime = (\<lambda>str. None),
      parseInt = (\<lambda>str. None),
      localTZA = (\<lambda>t isUTC. 0)\<rparr>"

text \<open>The same clock in New York: five hours behind UTC, four hours behind until summer
  time ended on 5 November 2023 at 06:00 UTC, which was 02:00 local time.\<close>

definition newYorkEnv :: env where
  "newYorkEnv =
     exampleEnv\<lparr>localTZA :=
       (\<lambda>t isUTC. if t < (if isUTC then 1699164000000 else 1699149600000)
                  then - 14400000 else - 18000000)\<rparr>"

definition emptyDatabase :: database where
  "emptyDatabase =
     \<lparr>transactions = [], categories = [], settings = None, budgets = [], actionLogs = [],
      uuidsDrawn = 0\<rparr>"

text \<open>A store with five hundred log entries, the \<open>i\<close>-th written at instant \<open>i\<close>.\<close>

definition exampleLog :: "nat \<Rightarrow> actionLog" where
  "exampleLog i =
     \<lparr>l_id = replicate (Suc i) (CHR ''x''), l_action = Create,
      l_entityType = TransactionEntity, l_entityId = ''t1'', l_data = DataRestored,
      l_timestamp = int i\<rparr>"

definition fullLogDatabase :: database where
  "fullLogDatabase = emptyDatabase\<lparr>actionLogs := map exampleLog [0..<500]\<rparr>"



definition exampleTransaction :: transaction where
  "exampleTransaction =
     \<lparr>tx_id = ''t1'', tx_amount = 100, tx_date = ''2024-03-15'', tx_categoryId = ''c1'',
      tx_memo = Some ''Lunch at Cafe'', tx_type = Expense, tx_receiptImage = None,
      tx_createdAt = 1710000000000, tx_updatedAt = 1710000000000, tx_deletedAt = None\<rparr>"

definition oneTransactionDatabase :: database where
  "oneTransactionDatabase = emptyDatabase\<lparr>transactions := [exampleTransaction]\<rparr>"

definition maxZeroFilters :: filterOptions where
  "maxZeroFilters =
     \<lparr>dateFrom = None, dateTo = None, categoryIds = None, amountMin = None,
      amountMax = Some 0, keyword = None, filterType = None\<rparr>"

definition marchExpenseFilters :: filterOptions where
  "marchExpenseFilters =
     \<lparr>dateFrom = Some ''2024-03-01'', dateTo = None, categoryIds = Some [''c1'', ''c2''],
      amountMin = Some 50, amountMax = Some 100, keyword = Some ''CAFE'',
      filterType = Some Expense\<rparr>"

text \<open>A trash of two transactions, deleted 31 and 29 days before the clock of
  \<open>exampleEnv\<close>, beside a transaction that is not deleted.\<close>

definition deleted31 :: transaction where
  "deleted31 = exampleTransaction\<lparr>tx_id := ''t31'', tx_deletedAt := Some (1700000000000 - 31 * 86400000)\<rparr>"

definition deleted29 :: transaction where
  "deleted29 = exampleTransaction\<lparr>tx_id := ''t29'', tx_deletedAt := Some (1700000000000 - 29 * 86400000)\<rparr>"

definition trashDatabase :: database where
  "trashDatabase = emptyDatabase\<lparr>transactions := [deleted31, exampleTransaction, deleted29]\<rparr>"

text \<open>A transaction deleted thirty days and thirty minutes before the clock of
  \<open>exampleEnv\<close>.\<close>

definition deleted30 :: transaction where
  "deleted30 = exampleTransaction\<lparr>tx_id := ''t30'', tx_deletedAt := Some 1697406200000\<rparr>"

definition staleDatabase :: database where
  "staleDatabase = emptyDatabase\<lparr>transactions := [deleted30]\<rparr>"

definition exampleCategory :: category where
  "exampleCategory =
     \<lparr>c_id = ''c1'', c_name = ''food'', c_icon = ''i'', c_color = ''#ef4444'',
      c_type = CatExpense, c_budget = None, c_order = 1,
      c_createdAt = 1690000000000, c_updatedAt = 1690000000000\<rparr>"

definition exampleSettings :: settings where
  "exampleSettings =
     \<lparr>s_currency = JPY, s_weekStartsOn = True, s_theme = System, s_passcodeEnabled = False,
      s_passcodeHash = None, s_totalBudget = None, s_language = Ja,
      s_createdAt = 1690000000000, s_updatedAt = 1690000000000\<rparr>"

definition householdDatabase :: database where
  "householdDatabase =
     trashDatabase\<lparr>categories := [exampleCategory], settings := Some exampleSettings\<rparr>"

definition marchExpense :: transaction where
  "marchExpense =
     \<lparr>tx_id = ''m1'', tx_amount = 1000, tx_date = ''2024-03-15'', tx_categoryId = ''c1'',
      tx_memo = None, tx_type = Expense, tx_receiptImage = None,
      tx_createdAt = 1710500000000, tx_updatedAt = 1710500000000, tx_deletedAt = None\<rparr>"

definition marchIncome :: transaction where
  "marchIncome =
     \<lparr>tx_id = ''m2'', tx_amount = 5000, tx_date = ''2024-03-01'', tx_categoryId = ''gone'',
      tx_memo = None, tx_type = Income, tx_receiptImage = None,
      tx_createdAt = 1709300000000, tx_updatedAt = 1709300000000, tx_deletedAt = None\<rparr>"

definition marchDatabase :: database where
  "marchDatabase =
     emptyDatabase\<lparr>transactions := [marchExpense, marchIncome], categories := [exampleCategory]\<rparr>"

text \<open>The store of March with a later transaction whose category is gone.\<close>

definition aprilIncome :: transaction where
  "aprilIncome = marchIncome\<lparr>tx_id := ''a1'', tx_date := ''2024-04-02'', tx_createdAt := 1712000000000\<rparr>"

definition aprilDatabase :: database where
  "aprilDatabase = marchDatabase\<lparr>transactions := [marchExpense, marchIncome, aprilIncome]\<rparr>"

text \<open>The form filled in for a category \<^verbatim>\<open>Food\<close>, with blanks around the name.\<close>

definition foodForm :: formData where
  "foodForm = \<lparr>name = '' Food '', icon = ''i'', color = ''#3b82f6'', formType = CatExpense,
                budget = []\<rparr>"


section \<open>Tables: basic facts\<close>

lemma set_toArray: "set (toArray key rows) = set rows"
  by (simp add: toArray_def)

lemma set_orderBy: "set (orderBy index key rows) = set rows"
  by (simp add: orderBy_def toArray_def)

lemma length_orderBy: "length (orderBy index key rows) = length rows"
  by (simp add: orderBy_def toArray_def)

lemma distinct_orderBy: "distinct (orderBy index key rows) = distinct rows"
  by (simp add: orderBy_def toArray_def)

lemma sorted_orderBy: "sorted (map index (orderBy index key rows))"
  by (simp add: orderBy_def)

lemma distinct_keys_rows: "distinct (map key rows) \<Longrightarrow> distinct rows"
  by (simp add: distinct_map)

lemma take_le_drop_sorted:
  assumes "sorted (map f xs)" "a \<in> set (take k xs)" "b \<in> set (drop k xs)"
  shows "f a \<le> f b"
proof -
  have "sorted (map f (take k xs) @ map f (drop k xs))"
    using assms(1) by (simp flip: map_append)
  then show ?thesis using assms(2,3) by (auto simp: sorted_append)
qed

lemma bulkDelete_take_set:
  assumes "distinct (map key rows)" "set ys = set rows" "distinct ys"
  shows "set (bulkDelete key (map key (take k ys)) rows) = set (drop k ys)"
proof -
  have inj: "inj_on key (set rows)" using assms(1) by (simp add: distinct_map)
  have split: "set rows = set (take k ys) \<union> set (drop k ys)"
    using assms(2) set_append[of "take k ys" "drop k ys"] by simp
  have disj: "set (take k ys) \<inter> set (drop k ys) = {}"
    using assms(3) distinct_append[of "take k ys" "drop k ys"] by simp
  show ?thesis
  proof (intro set_eqI iffI)
    fix r assume "r \<in> set (bulkDelete key (map key (take k ys)) rows)"
    then have r: "r \<in> set rows" and nk: "key r \<notin> key ` set (take k ys)"
      by (auto simp: bulkDelete_def)
    from nk have "r \<notin> set (take k ys)" by blast
    with r split show "r \<in> set (drop k ys)" by blast
  next
    fix r assume rd: "r \<in> set (drop k ys)"
    then have r: "r \<in> set rows" using split by blast
    have "key r \<notin> key ` set (take k ys)"
    proof
      assume "key r \<in> key ` set (take k ys)"
      then obtain q where q: "q \<in> set (take k ys)" "key q = key r" by auto
      then have "q \<in> set rows" using split by blast
      with inj r q(2) have "q = r" by (auto dest: inj_onD)
      with q(1) rd disj show False by blast
    qed
    with r show "r \<in> set (bulkDelete key (map key (take k ys)) rows)"
      by (simp add: bulkDelete_def)
  qed
qed

lemma bulkDelete_take_length:
  assumes "distinct (map key rows)" "set ys = set rows" "distinct ys"
  shows "length (bulkDelete key (map key (take k ys)) rows) = length rows - k"
proof -
  have dr: "distinct rows" using assms(1) by (simp add: distinct_map)
  have "distinct (bulkDelete key (map key (take k ys)) rows)"
    using dr by (simp add: bulkDelete_def)
  then have "length (bulkDelete key (map key (take k ys)) rows)
      = card (set (bulkDelete key (map key (take k ys)) rows))"
    by (simp add: distinct_card)
  also have "\<dots> = card (set (drop k ys))"
    using bulkDelete_take_set[OF assms] by simp
  also have "\<dots> = length (drop k ys)"
    using assms(3) by (simp add: distinct_card)
  also have "\<dots> = length rows - k"
    using assms dr by (metis distinct_card length_drop)
  finally show ?thesis .
qed


section \<open>The action log\<close>

lemma logAction_fresh:
  assumes "randomUUID e (uuidsDrawn s) \<notin> table_keys l_id (actionLogs s)"
  shows "actionLogs (logAction e a et eid d s) =
     (let logs = actionLogs s @ [newLog e a et eid d s]
      in if length logs > 500
         then bulkDelete l_id (map l_id (take (length logs - 500) (orderBy l_timestamp l_id logs))) logs
         else logs)"
  using assms by (simp add: logAction_def table_add_def newLog_def Let_def)

text \<open>
  Claim C2. When \<^verbatim>\<open>logAction\<close> has inserted its entry (the table's keys are distinct and
  the new UUID is not among them), the action log holds at most 500 entries, namely
  \<open>min 500 (n + 1)\<close> of the \<open>n + 1\<close> that it held after the insertion. The entries removed
  are the first \<open>n + 1 - 500\<close> in ascending order of timestamp: there are exactly that
  many, and none of them is younger than an entry that stays. Inserting into a log of
  500 entries leaves 500 and removes one entry, the first in timestamp order.
\<close>

theorem logAction_cap:
  assumes dist: "distinct (map l_id (actionLogs s))"
      and fresh: "randomUUID e (uuidsDrawn s) \<notin> table_keys l_id (actionLogs s)"
  shows "(let logs = actionLogs s @ [newLog e a et eid d s];
              logs' = actionLogs (logAction e a et eid d s);
              evicted = set logs - set logs'
          in length logs' \<le> 500
           \<and> length logs' = min 500 (length logs)
           \<and> set logs' \<subseteq> set logs
           \<and> evicted = set (take (length logs - 500) (orderBy l_timestamp l_id logs))
           \<and> card evicted = length logs - 500
           \<and> (\<forall>old \<in> evicted. \<forall>kept \<in> set logs'. l_timestamp old \<le> l_timestamp kept)
           \<and> (length (actionLogs s) = 500 \<longrightarrow>
                 length logs' = 500 \<and> evicted = {hd (orderBy l_timestamp l_id logs)}))"
proof -
  define logs where "logs = actionLogs s @ [newLog e a et eid d s]"
  define srt where "srt = orderBy l_timestamp l_id logs"
  define k where "k = length logs - 500"
  define logs' where "logs' = actionLogs (logAction e a et eid d s)"
  have id_new: "l_id (newLog e a et eid d s) = randomUUID e (uuidsDrawn s)"
    by (simp add: newLog_def)
  have dl: "distinct (map l_id logs)"
    using dist fresh by (simp add: logs_def id_new table_keys_def)
  have drows: "distinct logs" using dl by (rule distinct_keys_rows)
  have ss: "set srt = set logs" and ds: "distinct srt" and ls: "length srt = length logs"
    using drows by (simp_all add: srt_def set_orderBy distinct_orderBy length_orderBy)
  have logs'_eq: "logs' = bulkDelete l_id (map l_id (take k srt)) logs"
  proof (cases "length logs > 500")
    case True
    then show ?thesis
      using logAction_fresh[OF fresh, of a et eid d]
      by (simp add: logs'_def logs_def srt_def k_def Let_def)
  next
    case False
    then have "k = 0" by (simp add: k_def)
    then show ?thesis
      using False logAction_fresh[OF fresh, of a et eid d]
      by (simp add: logs'_def logs_def Let_def bulkDelete_def)
  qed
  have set': "set logs' = set (drop k srt)"
    unfolding logs'_eq by (rule bulkDelete_take_set[OF dl ss ds])
  have len': "length logs' = length logs - k"
    unfolding logs'_eq by (rule bulkDelete_take_length[OF dl ss ds])
  have split: "set logs = set (take k srt) \<union> set (drop k srt)"
    using ss set_append[of "take k srt" "drop k srt"] by simp
  have disj: "set (take k srt) \<inter> set (drop k srt) = {}"
    using ds distinct_append[of "take k srt" "drop k srt"] by simp
  have ev: "set logs - set logs' = set (take k srt)"
    using set' split disj by blast
  have c1: "length logs' = min 500 (length logs)"
    using len' by (simp add: k_def)
  have c3: "set logs' \<subseteq> set logs" using set' split by blast
  have c5: "card (set logs - set logs') = k"
  proof -
    have "card (set (take k srt)) = length (take k srt)"
      using ds by (simp add: distinct_card)
    also have "\<dots> = k" using ls by (simp add: k_def)
    finally show ?thesis using ev by simp
  qed
  have c6: "\<forall>old \<in> set logs - set logs'. \<forall>kept \<in> set logs'. l_timestamp old \<le> l_timestamp kept"
  proof (intro ballI)
    fix old kept
    assume "old \<in> set logs - set logs'" and "kept \<in> set logs'"
    then have "old \<in> set (take k srt)" and "kept \<in> set (drop k srt)"
      using ev set' by blast+
    then show "l_timestamp old \<le> l_timestamp kept"
      unfolding srt_def by (rule take_le_drop_sorted[OF sorted_orderBy])
  qed
  have c7: "length (actionLogs s) = 500 \<longrightarrow>
      length logs' = 500 \<and> set logs - set logs' = {hd srt}"
  proof
    assume n: "length (actionLogs s) = 500"
    then have k1: "k = 1" by (simp add: k_def logs_def)
    have "srt \<noteq> []" using ls n by (auto simp: logs_def)
    then have "take 1 srt = [hd srt]" by (cases srt) simp_all
    then show "length logs' = 500 \<and> set logs - set logs' = {hd srt}"
      using ev k1 c1 n by (simp add: logs_def)
  qed
  show ?thesis
    using c1 c3 ev c5 c6 c7
    unfolding Let_def logs_def[symmetric] logs'_def[symmetric] srt_def[symmetric] k_def[symmetric]
    by simp
qed


lemma fullLog_distinct: "distinct (map l_id (actionLogs fullLogDatabase))"
proof -
  have "inj_on (\<lambda>i. replicate (Suc i) (CHR ''x'')) (set [0..<500])"
    by (rule inj_onI) (metis length_replicate nat.inject)
  then show ?thesis
    by (simp add: fullLogDatabase_def emptyDatabase_def exampleLog_def distinct_map comp_def)
qed

lemma fullLog_fresh:
  "randomUUID exampleEnv (uuidsDrawn fullLogDatabase) \<notin> table_keys l_id (actionLogs fullLogDatabase)"
  by (auto simp: fullLogDatabase_def emptyDatabase_def exampleLog_def exampleEnv_def table_keys_def)

theorem logAction_cap_witness:
  "distinct (map l_id (actionLogs fullLogDatabase))
   \<and> randomUUID exampleEnv (uuidsDrawn fullLogDatabase) \<notin> table_keys l_id (actionLogs fullLogDatabase)
   \<and> length (actionLogs fullLogDatabase) = 500
   \<and> length (actionLogs (logAction exampleEnv Restore TransactionEntity ''t1'' DataRestored fullLogDatabase)) = 500
   \<and> set (actionLogs fullLogDatabase @ [newLog exampleEnv Restore TransactionEntity ''t1'' DataRestored fullLogDatabase])
       - set (actionLogs (logAction exampleEnv Restore TransactionEntity ''t1'' DataRestored fullLogDatabase))
       = {exampleLog 0}"
proof -
  define new where "new = newLog exampleEnv Restore TransactionEntity ''t1'' DataRestored fullLogDatabase"
  define logs where "logs = actionLogs fullLogDatabase @ [new]"
  define logs' where "logs' = actionLogs (logAction exampleEnv Restore TransactionEntity ''t1'' DataRestored fullLogDatabase)"
  define x where "x = hd (orderBy l_timestamp l_id logs)"
  have n: "length (actionLogs fullLogDatabase) = 500"
    by (simp add: fullLogDatabase_def emptyDatabase_def)
  have rows: "set (actionLogs fullLogDatabase) = exampleLog ` {0..<500}"
    by (simp add: fullLogDatabase_def emptyDatabase_def)
  from logAction_cap[OF fullLog_distinct fullLog_fresh, of Restore TransactionEntity "''t1''" DataRestored] n
  have len: "length logs' = 500"
    and ev: "set logs - set logs' = {x}"
    and ord: "\<forall>old \<in> set logs - set logs'. \<forall>kept \<in> set logs'. l_timestamp old \<le> l_timestamp kept"
    unfolding Let_def new_def[symmetric] logs_def[symmetric] logs'_def[symmetric] x_def[symmetric]
    by blast+
  have x_ev: "x \<in> set logs - set logs'" using ev by simp
  then have x_in: "x \<in> set logs" by simp
  have first_in: "exampleLog 0 \<in> set logs" by (simp add: logs_def rows)
  have "x = exampleLog 0"
  proof (rule ccontr)
    assume ne: "x \<noteq> exampleLog 0"
    then have "exampleLog 0 \<notin> set logs - set logs'" using ev by simp
    with first_in have "exampleLog 0 \<in> set logs'" by simp
    with ord x_ev have "l_timestamp x \<le> l_timestamp (exampleLog 0)" by blast
    then have le0: "l_timestamp x \<le> 0" by (simp add: exampleLog_def)
    from x_in have "x = new \<or> (\<exists>i<500. x = exampleLog i)"
      by (auto simp: logs_def rows)
    then show False
    proof
      assume "x = new"
      with le0 show False by (simp add: new_def newLog_def exampleEnv_def)
    next
      assume "\<exists>i<500. x = exampleLog i"
      then obtain i where i: "x = exampleLog i" by blast
      with le0 have "i = 0" by (simp add: exampleLog_def)
      with i ne show False by simp
    qed
  qed
  with ev have "set logs - set logs' = {exampleLog 0}" by simp
  with fullLog_distinct fullLog_fresh n len show ?thesis
    unfolding logs_def logs'_def new_def by blast
qed

section \<open>Operations on the tables\<close>

lemma logAction_tables:
  "transactions (logAction e a et eid d s) = transactions s"
  "categories (logAction e a et eid d s) = categories s"
  "settings (logAction e a et eid d s) = settings s"
  "budgets (logAction e a et eid d s) = budgets s"
  by (simp_all add: logAction_def Let_def split: option.split)

lemma logActionInHook_eq:
  "logActionInHook e a et eid d s = s\<lparr>uuidsDrawn := Suc (uuidsDrawn s)\<rparr>"
  by (simp add: logActionInHook_def Let_def)

lemma fold_logActionInHook:
  "fold (\<lambda>obj. logActionInHook e a et (eid obj) (d obj)) objs s
     = s\<lparr>uuidsDrawn := uuidsDrawn s + length objs\<rparr>"
  by (induction objs arbitrary: s) (simp_all add: logActionInHook_eq)

lemma table_get_None: "table_get key k rows = None \<longleftrightarrow> k \<notin> table_keys key rows"
  by (auto simp: table_get_def table_keys_def find_None_iff)

lemma table_get_Some:
  assumes "distinct (map key rows)"
  shows "table_get key k rows = Some r \<longleftrightarrow> r \<in> set rows \<and> key r = k"
proof
  assume "table_get key k rows = Some r"
  then show "r \<in> set rows \<and> key r = k"
    by (auto simp: table_get_def find_Some_iff)
next
  assume r: "r \<in> set rows \<and> key r = k"
  then have "k \<in> table_keys key rows" by (auto simp: table_keys_def)
  then obtain q where q: "table_get key k rows = Some q"
    using table_get_None[of key k rows] by (cases "table_get key k rows") auto
  then have "q \<in> set rows" "key q = k"
    by (auto simp: table_get_def find_Some_iff)
  with r assms have "q = r" by (auto simp: distinct_map dest: inj_onD)
  with q show "table_get key k rows = Some r" by simp
qed

lemma table_update_absent:
  "k \<notin> table_keys key rows \<Longrightarrow> table_update key k ch rows = rows"
  by (induction rows) (auto simp: table_update_def table_keys_def)

lemma table_update_fixed:
  assumes "distinct (map key rows)" "table_get key k rows = Some obj" "ch obj = obj"
  shows "table_update key k ch rows = rows"
proof -
  have "(if key r = k then ch r else r) = r" if "r \<in> set rows" for r
  proof (cases "key r = k")
    case True
    with that have "table_get key k rows = Some r"
      by (simp add: table_get_Some[OF assms(1)])
    with assms(2,3) show ?thesis by simp
  next
    case False
    then show ?thesis by simp
  qed
  then show ?thesis by (simp add: table_update_def map_idI)
qed

lemma set_table_update:
  "set (table_update key k ch rows) = (\<lambda>r. if key r = k then ch r else r) ` set rows"
  by (simp add: table_update_def)

lemma transactionsUpdate_transactions:
  assumes "distinct (map tx_id (transactions s))"
  shows "transactions (transactionsUpdate e k ch s) = table_update tx_id k ch (transactions s)"
proof (cases "table_get tx_id k (transactions s)")
  case None
  then have "k \<notin> table_keys tx_id (transactions s)" by (simp add: table_get_None)
  then have "table_update tx_id k ch (transactions s) = transactions s"
    by (rule table_update_absent)
  with None show ?thesis by (simp add: transactionsUpdate_def)
next
  case (Some obj)
  show ?thesis
  proof (cases "ch obj = obj")
    case True
    have "table_update tx_id k ch (transactions s) = transactions s"
      using assms Some True by (rule table_update_fixed)
    with Some True show ?thesis
      by (simp add: transactionsUpdate_def)
  next
    case False
    with Some show ?thesis by (simp add: transactionsUpdate_def logActionInHook_eq)
  qed
qed



lemma softDelete_absent:
  "k \<notin> table_keys tx_id (transactions s) \<Longrightarrow> softDeleteTransaction e k s = s"
  by (simp add: softDeleteTransaction_def table_get_None[symmetric])

lemma softDelete_transactions:
  assumes "distinct (map tx_id (transactions s))"
  shows "transactions (softDeleteTransaction e k s) =
    table_update tx_id k (\<lambda>t. t\<lparr>tx_deletedAt := Some (now e), tx_updatedAt := now e\<rparr>) (transactions s)"
proof (cases "table_get tx_id k (transactions s)")
  case None
  then have "k \<notin> table_keys tx_id (transactions s)" by (simp add: table_get_None)
  then show ?thesis by (simp add: softDelete_absent table_update_absent)
next
  case (Some obj)
  then show ?thesis
    by (simp add: softDeleteTransaction_def transactionsUpdate_transactions[OF assms])
qed

lemma restore_transactions:
  assumes "distinct (map tx_id (transactions s))"
  shows "transactions (restoreTransaction e k s) =
    table_update tx_id k (\<lambda>t. t\<lparr>tx_deletedAt := None, tx_updatedAt := now e\<rparr>) (transactions s)"
  by (simp add: restoreTransaction_def logAction_tables transactionsUpdate_transactions[OF assms])

lemma table_update_keys:
  assumes "\<And>r. key (ch r) = key r"
  shows "map key (table_update key k ch rows) = map key rows"
  using assms by (simp add: table_update_def)












section \<open>Listing transactions\<close>

lemma set_insertBy: "set (insertBy cmp x xs) = insert x (set xs)"
  by (induction xs) auto

lemma set_arraySort: "set (arraySort cmp xs) = set xs"
  by (induction xs) (simp_all add: arraySort_def set_insertBy)

lemma length_insertBy: "length (insertBy cmp x xs) = Suc (length xs)"
  by (induction xs) auto

lemma length_arraySort: "length (arraySort cmp xs) = length xs"
  by (induction xs) (simp_all add: arraySort_def length_insertBy)

lemma set_applySort: "set (applySort e so xs) = set xs"
  by (simp add: applySort_def set_arraySort split: option.split sortField.split)

lemma filter_when: "(if c then filter P q else q) = filter (\<lambda>t. c \<longrightarrow> P t) q"
  by simp

lemma filterDate_filter:
  "filterDate f q = filter (\<lambda>t. truthyString (dateFrom f) \<or> truthyString (dateTo f) \<longrightarrow>
         orString (dateFrom f) ''0000-01-01'' \<le> tx_date t
         \<and> tx_date t \<le> orString (dateTo f) ''9999-12-31'') q"
  unfolding filterDate_def Let_def by (rule filter_when)

lemma filterCategoryIds_filter:
  "filterCategoryIds f q = filter (\<lambda>t. case categoryIds f of
            Some ids \<Rightarrow> ids \<noteq> [] \<longrightarrow> tx_categoryId t \<in> set ids
          | None \<Rightarrow> True) q"
  unfolding filterCategoryIds_def by (cases "categoryIds f") simp_all

lemma filterAmount_filter:
  "filterAmount f q = filter (\<lambda>t. amountMin f \<noteq> None \<or> amountMax f \<noteq> None \<longrightarrow>
            orNumber (amountMin f) 0 \<le> tx_amount t
            \<and> tx_amount t \<le> orNumber (amountMax f) MAX_SAFE_INTEGER) q"
  unfolding filterAmount_def Let_def by (rule filter_when)

lemma filterKeyword_filter:
  "filterKeyword f q = filter (\<lambda>t. truthyString (keyword f) \<longrightarrow>
            (case tx_memo t of
               None \<Rightarrow> False
             | Some memo \<Rightarrow> sublist (toLowerCase (orString (keyword f) [])) (toLowerCase memo))) q"
  unfolding filterKeyword_def Let_def by (rule filter_when)

lemma filterByType_filter:
  "filterByType f q = filter (\<lambda>t. case filterType f of Some ty \<Rightarrow> tx_type t = ty | None \<Rightarrow> True) q"
  unfolding filterByType_def by (cases "filterType f") simp_all

lemma applyFilters_filter: "applyFilters f q = filter (matchesFilters f) q"
  unfolding applyFilters_def Let_def filterDate_filter filterCategoryIds_filter
    filterAmount_filter filterKeyword_filter filterByType_filter filter_filter matchesFilters_def
  by (rule filter_cong[OF refl]) blast

lemma whereEquals_undefined: "whereEquals index key None rows = Inl TypeError"
  by (simp add: whereEquals_def)

lemma useTransactions_TypeError: "useTransactions e filters so s = Inl TypeError"
  by (simp add: useTransactions_def whereEquals_undefined)

lemma getActiveTransactions_TypeError: "getActiveTransactions s = Inl TypeError"
  by (simp add: getActiveTransactions_def whereEquals_undefined)

text \<open>
  Claim C6, at a store with one transaction that is not deleted. \<^verbatim>\<open>softDeleteTransaction\<close>
  sets \<^verbatim>\<open>deletedAt\<close> on the row and \<^verbatim>\<open>restoreTransaction\<close> clears it again, but
  \<^verbatim>\<open>useTransactions\<close> delivers no list before, between or after the two calls: its query
  \<^verbatim>\<open>where('deletedAt').equals(undefined)\<close> rejects with a \<^verbatim>\<open>TypeError\<close>, so the transaction
  is never ``included again''.
\<close>

theorem softDelete_restore_listing_rejects:
  "transactions (softDeleteTransaction exampleEnv ''t1'' oneTransactionDatabase)
     = [exampleTransaction\<lparr>tx_deletedAt := Some 1700000000000, tx_updatedAt := 1700000000000\<rparr>]
   \<and> transactions (restoreTransaction exampleEnv ''t1''
         (softDeleteTransaction exampleEnv ''t1'' oneTransactionDatabase))
       = [exampleTransaction\<lparr>tx_updatedAt := 1700000000000\<rparr>]
   \<and> useTransactions exampleEnv None None oneTransactionDatabase = Inl TypeError
   \<and> useTransactions exampleEnv None None
        (softDeleteTransaction exampleEnv ''t1'' oneTransactionDatabase) = Inl TypeError
   \<and> useTransactions exampleEnv None None
        (restoreTransaction exampleEnv ''t1''
           (softDeleteTransaction exampleEnv ''t1'' oneTransactionDatabase)) = Inl TypeError"
proof -
  have h1: "distinct (map tx_id (transactions oneTransactionDatabase))"
    by (simp add: oneTransactionDatabase_def emptyDatabase_def)
  have id1: "tx_id exampleTransaction = ''t1''" by (simp add: exampleTransaction_def)
  have tx1: "transactions (softDeleteTransaction exampleEnv ''t1'' oneTransactionDatabase)
      = [exampleTransaction\<lparr>tx_deletedAt := Some 1700000000000, tx_updatedAt := 1700000000000\<rparr>]"
    using softDelete_transactions[OF h1, of exampleEnv "''t1''"]
    by (simp add: oneTransactionDatabase_def emptyDatabase_def table_update_def id1 exampleEnv_def)
  have d1: "distinct (map tx_id (transactions (softDeleteTransaction exampleEnv ''t1'' oneTransactionDatabase)))"
    by (simp add: tx1)
  have tx2: "transactions (restoreTransaction exampleEnv ''t1''
           (softDeleteTransaction exampleEnv ''t1'' oneTransactionDatabase))
      = [exampleTransaction\<lparr>tx_updatedAt := 1700000000000\<rparr>]"
    using restore_transactions[OF d1, of exampleEnv "''t1''"] unfolding tx1
    by (simp add: table_update_def exampleEnv_def exampleTransaction_def)
  show ?thesis
    using tx1 tx2 by (simp add: useTransactions_TypeError)
qed

section \<open>The filters of useTransactions\<close>

lemma matchesFilters_satisfies:
  assumes "amountMax f \<noteq> Some 0"
      and "0 \<le> tx_amount t" "tx_amount t \<le> MAX_SAFE_INTEGER"
  shows "matchesFilters f t = satisfiesFilters f t"
proof -
  have amt: "(amountMin f \<noteq> None \<or> amountMax f \<noteq> None \<longrightarrow>
            orNumber (amountMin f) 0 \<le> tx_amount t
            \<and> tx_amount t \<le> orNumber (amountMax f) MAX_SAFE_INTEGER)
      = ((case amountMin f of Some lo \<Rightarrow> lo \<le> tx_amount t | None \<Rightarrow> True)
         \<and> (case amountMax f of Some hi \<Rightarrow> tx_amount t \<le> hi | None \<Rightarrow> True))"
    using assms by (auto simp: orNumber_def split: option.splits)
  have kw: "(case tx_memo t of None \<Rightarrow> False
             | Some memo \<Rightarrow> sublist k (toLowerCase memo))
      = (\<exists>memo ps ss. tx_memo t = Some memo \<and> toLowerCase memo = ps @ k @ ss)" for k
    by (cases "tx_memo t") (auto simp: sublist_def)
  show ?thesis
    unfolding matchesFilters_def satisfiesFilters_def amt kw by blast
qed

text \<open>
  What lines 13 to 80 of \<^verbatim>\<open>useTransactions\<close> make of an array \<open>q\<close> of transactions, for
  filters whose \<^verbatim>\<open>amountMax\<close> is not zero and amounts from zero to
  \<^verbatim>\<open>Number.MAX_SAFE_INTEGER\<close>: the transactions of \<open>q\<close> that satisfy every active filter.
\<close>

lemma applyFilters_membership:
  assumes "amountMax f \<noteq> Some 0"
      and "\<forall>t \<in> set q. 0 \<le> tx_amount t \<and> tx_amount t \<le> MAX_SAFE_INTEGER"
  shows "t \<in> set (applySort e so (applyFilters f q)) \<longleftrightarrow> t \<in> set q \<and> satisfiesFilters f t"
proof (cases "t \<in> set q")
  case True
  with assms(2) have "0 \<le> tx_amount t" "tx_amount t \<le> MAX_SAFE_INTEGER" by auto
  from matchesFilters_satisfies[OF assms(1) this] True show ?thesis
    by (simp add: set_applySort applyFilters_filter)
next
  case False
  then show ?thesis by (simp add: set_applySort applyFilters_filter)
qed

lemma applyFilters_example:
  "applySort exampleEnv None (applyFilters marchExpenseFilters [exampleTransaction])
     = [exampleTransaction]"
  by code_simp

text \<open>
  Claim C1, at the call \<^verbatim>\<open>useTransactions()\<close> on a store whose one transaction is not
  deleted: the claim has the transaction in the result, and the query
  \<^verbatim>\<open>where('deletedAt').equals(undefined)\<close> rejects with a \<^verbatim>\<open>TypeError\<close> before any filter
  runs, so there is no result. Behind it the amount filter has a slip of its own: for
  the filters \<^verbatim>\<open>{ amountMax: 0 }\<close> the filter is active (\<^verbatim>\<open>amountMax !== undefined\<close>) and
  \<^verbatim>\<open>filters.amountMax || Number.MAX_SAFE_INTEGER\<close> takes the zero for a missing bound, so
  that the transaction of amount 100 passes a maximum of 0.
\<close>

theorem useTransactions_rejects:
  "exampleTransaction \<in> set (transactions oneTransactionDatabase)
   \<and> tx_deletedAt exampleTransaction = None
   \<and> useTransactions exampleEnv None None oneTransactionDatabase = Inl TypeError
   \<and> amountMax maxZeroFilters = Some 0
   \<and> tx_amount exampleTransaction = 100
   \<and> useTransactions exampleEnv (Some maxZeroFilters) None oneTransactionDatabase = Inl TypeError
   \<and> applyFilters maxZeroFilters [exampleTransaction] = [exampleTransaction]"
  by (simp add: useTransactions_TypeError
      oneTransactionDatabase_def emptyDatabase_def exampleTransaction_def
      applyFilters_def filterDate_def filterCategoryIds_def filterAmount_def filterKeyword_def
      filterByType_def maxZeroFilters_def truthyString_def orString_def orNumber_def
      MAX_SAFE_INTEGER_def)

section \<open>Purging the trash\<close>

lemma set_whereDeletedAtBelow:
  "set (whereDeletedAtBelow c rows) = {t \<in> set rows. isExpired (c + 30 * msPerDay) t}"
  by (auto simp: whereDeletedAtBelow_def set_orderBy isExpired_def split: option.splits)

lemma transactionsDelete_eq:
  "transactionsDelete e objs s =
     s\<lparr>transactions := bulkDelete tx_id (map tx_id objs) (transactions s),
       uuidsDrawn := uuidsDrawn s + length objs\<rparr>"
  using fold_logActionInHook[of e Delete TransactionEntity tx_id DataTransaction objs]
  by (simp add: transactionsDelete_def)

lemma transactionsDelete_Nil: "transactionsDelete e [] s = s"
  by (simp add: transactionsDelete_def bulkDelete_def)

lemma bulkDelete_selected:
  assumes "distinct (map key rows)" "set objs = {r \<in> set rows. P r}"
  shows "bulkDelete key (map key objs) rows = filter (\<lambda>r. \<not> P r) rows"
  unfolding bulkDelete_def
proof (rule filter_cong[OF refl])
  fix r assume r: "r \<in> set rows"
  have inj: "inj_on key (set rows)" using assms(1) by (simp add: distinct_map)
  show "(key r \<notin> set (map key objs)) = (\<not> P r)"
  proof
    assume "key r \<notin> set (map key objs)"
    then have "r \<notin> set objs" by auto
    with r assms(2) show "\<not> P r" by simp
  next
    assume np: "\<not> P r"
    show "key r \<notin> set (map key objs)"
    proof
      assume "key r \<in> set (map key objs)"
      then obtain q where q: "q \<in> set objs" "key q = key r" by auto
      with assms(2) have "q \<in> set rows" "P q" by auto
      with inj r q(2) have "q = r" by (auto dest: inj_onD)
      with \<open>P q\<close> np show False by simp
    qed
  qed
qed

lemma thirtyDaysAgo_eq:
  "UTC e (LocalTime e (now e) - 30 * msPerDay) = now e + offsetChange e - 30 * msPerDay"
  by (simp add: UTC_def LocalTime_def offsetChange_def)

lemma purge_transactions:
  assumes "distinct (map tx_id (transactions s))"
  shows "transactions (permanentlyDeleteOldTrash e s)
     = filter (\<lambda>t. \<not> isExpired (now e + offsetChange e) t) (transactions s)"
proof -
  have "set (whereDeletedAtBelow (now e + offsetChange e - 30 * msPerDay) (transactions s))
      = {t \<in> set (transactions s). isExpired (now e + offsetChange e) t}"
    by (simp add: set_whereDeletedAtBelow)
  from bulkDelete_selected[OF assms this] show ?thesis
    by (simp add: permanentlyDeleteOldTrash_def Let_def transactionsDelete_eq thirtyDaysAgo_eq)
qed

lemma purge_nothing_expired:
  assumes "\<forall>t \<in> set (transactions s). \<not> isExpired (now e + offsetChange e) t"
  shows "permanentlyDeleteOldTrash e s = s"
proof -
  have "set (whereDeletedAtBelow (now e + offsetChange e - 30 * msPerDay) (transactions s)) = {}"
    using assms by (simp add: set_whereDeletedAtBelow)
  then have "whereDeletedAtBelow (now e + offsetChange e - 30 * msPerDay) (transactions s) = []"
    by simp
  then show ?thesis
    by (simp add: permanentlyDeleteOldTrash_def Let_def transactionsDelete_Nil thirtyDaysAgo_eq)
qed

text \<open>
  Claim C5, as worded, fails where the local offset from UTC changed in the last thirty
  days. In New York at the clock's reading 1700000000000 (14 November 2023) the local
  time of day thirty days earlier lies in summer time, and \<^verbatim>\<open>setDate(getDate() - 30)\<close>
  gives the instant thirty days and one hour before the reading. A transaction deleted
  thirty days and thirty minutes before the reading is older than the reading minus
  thirty days, and \<^verbatim>\<open>permanentlyDeleteOldTrash\<close> leaves it in the store.
\<close>

theorem permanentlyDeleteOldTrash_keeps_expired:
  "tx_deletedAt deleted30 = Some (now newYorkEnv - 30 * msPerDay - 1800000)
   \<and> isExpired (now newYorkEnv) deleted30
   \<and> transactions staleDatabase = [deleted30]
   \<and> transactions (permanentlyDeleteOldTrash newYorkEnv staleDatabase) = [deleted30]"
  by code_simp

text \<open>
  Claim C5, amended. On a table with distinct keys \<^verbatim>\<open>permanentlyDeleteOldTrash\<close> removes
  exactly the transactions whose \<^verbatim>\<open>deletedAt\<close> is older than the instant that has the
  local time of day of the clock's reading thirty calendar days earlier, which is the
  reading minus thirty days plus the change of the local offset from UTC in between,
  and leaves the other tables and the log alone. Where the offset did not change these
  are the transactions older than the reading minus thirty days. Where it changed by
  less than a day, a transaction deleted 31 days ago is gone, key included, and one
  deleted 29 days ago stays. A second call at the same reading changes nothing, and a
  call on a store without such transactions changes nothing.
\<close>

theorem permanentlyDeleteOldTrash_exact:
  assumes dist: "distinct (map tx_id (transactions s))"
  shows "transactions (permanentlyDeleteOldTrash e s)
           = filter (\<lambda>t. \<not> isExpired (now e + offsetChange e) t) (transactions s)
     \<and> categories (permanentlyDeleteOldTrash e s) = categories s
     \<and> settings (permanentlyDeleteOldTrash e s) = settings s
     \<and> budgets (permanentlyDeleteOldTrash e s) = budgets s
     \<and> actionLogs (permanentlyDeleteOldTrash e s) = actionLogs s
     \<and> (offsetChange e = 0 \<longrightarrow>
           transactions (permanentlyDeleteOldTrash e s)
             = filter (\<lambda>t. \<not> isExpired (now e) t) (transactions s))
     \<and> (\<bar>offsetChange e\<bar> < msPerDay \<longrightarrow>
          (\<forall>t \<in> set (transactions s). tx_deletedAt t = Some (now e - 31 * msPerDay) \<longrightarrow>
             tx_id t \<notin> table_keys tx_id (transactions (permanentlyDeleteOldTrash e s)))
          \<and> (\<forall>t \<in> set (transactions s). tx_deletedAt t = Some (now e - 29 * msPerDay) \<longrightarrow>
                t \<in> set (transactions (permanentlyDeleteOldTrash e s))))
     \<and> permanentlyDeleteOldTrash e (permanentlyDeleteOldTrash e s) = permanentlyDeleteOldTrash e s
     \<and> ((\<forall>t \<in> set (transactions s). \<not> isExpired (now e + offsetChange e) t) \<longrightarrow>
           permanentlyDeleteOldTrash e s = s)"
proof -
  let ?p = "permanentlyDeleteOldTrash e s"
  let ?c = "now e + offsetChange e"
  have tx: "transactions ?p = filter (\<lambda>t. \<not> isExpired ?c t) (transactions s)"
    by (rule purge_transactions[OF dist])
  have others: "categories ?p = categories s \<and> settings ?p = settings s \<and> budgets ?p = budgets s
      \<and> actionLogs ?p = actionLogs s"
    by (simp add: permanentlyDeleteOldTrash_def Let_def transactionsDelete_eq)
  have same: "transactions ?p = filter (\<lambda>t. \<not> isExpired (now e) t) (transactions s)"
    if "offsetChange e = 0"
    using tx that by simp
  have d31: "tx_id t \<notin> table_keys tx_id (transactions ?p)"
    if small: "\<bar>offsetChange e\<bar> < msPerDay"
      and t: "t \<in> set (transactions s)" and d: "tx_deletedAt t = Some (now e - 31 * msPerDay)" for t
  proof
    assume "tx_id t \<in> table_keys tx_id (transactions ?p)"
    then obtain r where r: "r \<in> set (transactions s)" "\<not> isExpired ?c r" "tx_id r = tx_id t"
      by (auto simp: tx table_keys_def)
    from dist r(1,3) t have "r = t" by (auto simp: distinct_map dest: inj_onD)
    with r(2) d small show False by (simp add: isExpired_def msPerDay_def)
  qed
  have d29: "t \<in> set (transactions ?p)"
    if small: "\<bar>offsetChange e\<bar> < msPerDay"
      and t: "t \<in> set (transactions s)" and d: "tx_deletedAt t = Some (now e - 29 * msPerDay)" for t
    using t d small by (simp add: tx isExpired_def msPerDay_def)
  have none_left: "\<forall>t \<in> set (transactions ?p). \<not> isExpired (now e + offsetChange e) t"
    by (simp add: tx)
  have idem: "permanentlyDeleteOldTrash e ?p = ?p"
    using none_left by (rule purge_nothing_expired)
  show ?thesis
    using tx others same d31 d29 idem purge_nothing_expired[of s e] by blast
qed

theorem permanentlyDeleteOldTrash_exact_witness:
  "distinct (map tx_id (transactions trashDatabase))
   \<and> tx_deletedAt deleted31 = Some (now newYorkEnv - 31 * msPerDay)
   \<and> tx_deletedAt deleted29 = Some (now newYorkEnv - 29 * msPerDay)
   \<and> offsetChange newYorkEnv = - 3600000
   \<and> offsetChange exampleEnv = 0
   \<and> transactions (permanentlyDeleteOldTrash newYorkEnv trashDatabase)
       = [exampleTransaction, deleted29]
   \<and> transactions (permanentlyDeleteOldTrash exampleEnv trashDatabase)
       = [exampleTransaction, deleted29]
   \<and> permanentlyDeleteOldTrash newYorkEnv (permanentlyDeleteOldTrash newYorkEnv trashDatabase)
       = permanentlyDeleteOldTrash newYorkEnv trashDatabase
   \<and> permanentlyDeleteOldTrash newYorkEnv oneTransactionDatabase = oneTransactionDatabase"
proof -
  have h: "distinct (map tx_id (transactions trashDatabase))"
    by (simp add: trashDatabase_def emptyDatabase_def deleted31_def deleted29_def
        exampleTransaction_def)
  have h1: "distinct (map tx_id (transactions oneTransactionDatabase))"
    by (simp add: oneTransactionDatabase_def emptyDatabase_def)
  have oc: "offsetChange newYorkEnv = - 3600000" by code_simp
  have oc0: "offsetChange exampleEnv = 0" by code_simp
  have nw: "now newYorkEnv = 1700000000000" by code_simp
  have nw0: "now exampleEnv = 1700000000000" by code_simp
  have e1: "\<not> isExpired c exampleTransaction" for c
    by (simp add: isExpired_def exampleTransaction_def)
  have e29: "\<not> isExpired (1700000000000 + - 3600000) deleted29"
      "\<not> isExpired 1700000000000 deleted29"
    by (simp_all add: isExpired_def deleted29_def msPerDay_def)
  have e31: "isExpired (1700000000000 + - 3600000) deleted31"
      "isExpired 1700000000000 deleted31"
    by (simp_all add: isExpired_def deleted31_def msPerDay_def)
  have d31: "tx_deletedAt deleted31 = Some (now newYorkEnv - 31 * msPerDay)"
    by (simp add: deleted31_def nw msPerDay_def)
  have d29: "tx_deletedAt deleted29 = Some (now newYorkEnv - 29 * msPerDay)"
    by (simp add: deleted29_def nw msPerDay_def)
  have a: "transactions (permanentlyDeleteOldTrash newYorkEnv trashDatabase)
       = [exampleTransaction, deleted29]"
    using permanentlyDeleteOldTrash_exact[OF h, of newYorkEnv] e1 e29 e31
    by (simp add: trashDatabase_def emptyDatabase_def oc nw)
  have a0: "transactions (permanentlyDeleteOldTrash exampleEnv trashDatabase)
       = [exampleTransaction, deleted29]"
    using permanentlyDeleteOldTrash_exact[OF h, of exampleEnv] e1 e29 e31
    by (simp add: trashDatabase_def emptyDatabase_def oc0 nw0)
  have b: "permanentlyDeleteOldTrash newYorkEnv (permanentlyDeleteOldTrash newYorkEnv trashDatabase)
       = permanentlyDeleteOldTrash newYorkEnv trashDatabase"
    using permanentlyDeleteOldTrash_exact[OF h, of newYorkEnv] by blast
  have c: "permanentlyDeleteOldTrash newYorkEnv oneTransactionDatabase = oneTransactionDatabase"
    using permanentlyDeleteOldTrash_exact[OF h1, of newYorkEnv] e1
    by (simp add: oneTransactionDatabase_def emptyDatabase_def)
  from h d31 d29 oc oc0 a a0 b c show ?thesis by blast
qed

section \<open>Export and import\<close>

lemma categoriesDelete_eq:
  "categoriesDelete e objs s =
     s\<lparr>categories := bulkDelete c_id (map c_id objs) (categories s),
       uuidsDrawn := uuidsDrawn s + length objs\<rparr>"
  using fold_logActionInHook[of e Delete CategoryEntity c_id DataCategory objs]
  by (simp add: categoriesDelete_def)

lemma bulkDelete_all: "bulkDelete key (map key (toArray key rows)) rows = []"
  by (simp add: bulkDelete_def toArray_def filter_empty_conv)

lemma cleared_tables:
  "transactions (budgetsClear (categoriesClear e (transactionsClear e s))) = []"
  "categories (budgetsClear (categoriesClear e (transactionsClear e s))) = []"
  "budgets (budgetsClear (categoriesClear e (transactionsClear e s))) = []"
  "settings (budgetsClear (categoriesClear e (transactionsClear e s))) = settings s"
  "actionLogs (budgetsClear (categoriesClear e (transactionsClear e s))) = actionLogs s"
  by (simp_all add: budgetsClear_def categoriesClear_def transactionsClear_def
      categoriesDelete_eq transactionsDelete_eq bulkDelete_all)

lemma bulkAdd_fresh:
  assumes "distinct (map key xs)" "set (map key xs) \<inter> table_keys key rows = {}"
  shows "bulkAdd key xs rows = (rows @ xs, True)"
  using assms
proof (induction xs arbitrary: rows)
  case Nil
  then show ?case by simp
next
  case (Cons x xs)
  have fresh: "key x \<notin> table_keys key rows" using Cons.prems(2) by auto
  have "set (map key xs) \<inter> table_keys key (rows @ [x]) = {}"
    using Cons.prems by (auto simp: table_keys_def)
  moreover have "distinct (map key xs)" using Cons.prems(1) by simp
  ultimately have "bulkAdd key xs (rows @ [x]) = ((rows @ [x]) @ xs, True)"
    by (rule Cons.IH[rotated])
  with fresh show ?case by (simp add: table_add_def)
qed

lemma bulkAdd_into_empty:
  "distinct (map key xs) \<Longrightarrow> bulkAdd key xs [] = (xs, True)"
  using bulkAdd_fresh[of key xs "[]"] by (simp add: table_keys_def)

lemma distinct_keys_toArray:
  "distinct (map key (toArray key rows)) = distinct (map key rows)"
  by (simp add: toArray_def distinct_map)

lemma toArray_idem: "toArray key (toArray key rows) = toArray key rows"
  by (simp add: toArray_def sort_key_id_if_sorted)

lemma settingsUpdate_same: "settingsUpdate st st = st"
  by (cases "s_passcodeHash st"; cases "s_totalBudget st") (simp_all add: settingsUpdate_def)

lemma categoriesBulkAdd_empty:
  assumes "categories s = []" "distinct (map c_id cs)"
  shows "snd (categoriesBulkAdd e cs s) = None"
    "categories (fst (categoriesBulkAdd e cs s)) = cs"
    "transactions (fst (categoriesBulkAdd e cs s)) = transactions s"
    "budgets (fst (categoriesBulkAdd e cs s)) = budgets s"
    "settings (fst (categoriesBulkAdd e cs s)) = settings s"
  using assms
  by (simp_all add: categoriesBulkAdd_def Let_def bulkAdd_into_empty
      fold_logActionInHook[of e Create CategoryEntity c_id DataCategory cs s])

lemma transactionsBulkAdd_empty:
  assumes "transactions s = []" "distinct (map tx_id ts)"
  shows "snd (transactionsBulkAdd e ts s) = None"
    "transactions (fst (transactionsBulkAdd e ts s)) = ts"
    "categories (fst (transactionsBulkAdd e ts s)) = categories s"
    "budgets (fst (transactionsBulkAdd e ts s)) = budgets s"
    "settings (fst (transactionsBulkAdd e ts s)) = settings s"
  using assms
  by (simp_all add: transactionsBulkAdd_def Let_def bulkAdd_into_empty
      fold_logActionInHook[of e Create TransactionEntity tx_id DataTransaction ts s])

lemma budgetsBulkAdd_empty:
  assumes "budgets s = []" "distinct (map b_id bs)"
  shows "budgetsBulkAdd bs s = (s\<lparr>budgets := bs\<rparr>, None)"
  using assms by (simp add: budgetsBulkAdd_def bulkAdd_into_empty)

lemma andThen_ok: "snd r = None \<Longrightarrow> andThen r f = f (fst r)"
  by (cases r) (simp add: andThen_def)

lemma importSettings_same:
  assumes "settings s' = settings s"
  shows "settings (importSettings (data (exportData e s)) s') = settings s"
    "transactions (importSettings d s') = transactions s'"
    "categories (importSettings d s') = categories s'"
    "budgets (importSettings d s') = budgets s'"
  using assms
  by (auto simp: importSettings_def exportData_def settingsUpdate_same
      split: option.splits list.splits)


lemma importData_export:
  assumes dt: "distinct (map tx_id (transactions s))"
      and dc: "distinct (map c_id (categories s))"
      and db: "distinct (map b_id (budgets s))"
  shows "snd (importData e' (exportData e s) Overwrite s) = None"
    and "transactions (fst (importData e' (exportData e s) Overwrite s)) = toArray tx_id (transactions s)"
    and "categories (fst (importData e' (exportData e s) Overwrite s)) = toArray c_id (categories s)"
    and "budgets (fst (importData e' (exportData e s) Overwrite s)) = toArray b_id (budgets s)"
    and "settings (fst (importData e' (exportData e s) Overwrite s)) = settings s"
proof -
  define s1 where "s1 = budgetsClear (categoriesClear e' (transactionsClear e' s))"
  define r2 where "r2 = categoriesBulkAdd e' (toArray c_id (categories s)) s1"
  define r3 where "r3 = transactionsBulkAdd e' (toArray tx_id (transactions s)) (fst r2)"
  define s4 where "s4 = (fst r3)\<lparr>budgets := toArray b_id (budgets s)\<rparr>"
  have s1: "transactions s1 = []" "categories s1 = []" "budgets s1 = []" "settings s1 = settings s"
    by (simp_all add: s1_def cleared_tables(1-4))
  have dc': "distinct (map c_id (toArray c_id (categories s)))"
    using dc by (simp add: distinct_keys_toArray)
  have dt': "distinct (map tx_id (toArray tx_id (transactions s)))"
    using dt by (simp add: distinct_keys_toArray)
  have db': "distinct (map b_id (toArray b_id (budgets s)))"
    using db by (simp add: distinct_keys_toArray)
  have r2: "snd r2 = None" "categories (fst r2) = toArray c_id (categories s)"
    "transactions (fst r2) = []" "budgets (fst r2) = []" "settings (fst r2) = settings s"
    unfolding r2_def using categoriesBulkAdd_empty[OF s1(2) dc', of e'] s1 by simp_all
  have r3: "snd r3 = None" "transactions (fst r3) = toArray tx_id (transactions s)"
    "categories (fst r3) = toArray c_id (categories s)" "budgets (fst r3) = []"
    "settings (fst r3) = settings s"
    unfolding r3_def using transactionsBulkAdd_empty[OF r2(3) dt', of e'] r2 by simp_all
  have r4: "budgetsBulkAdd (toArray b_id (budgets s)) (fst r3) = (s4, None)"
    unfolding s4_def by (rule budgetsBulkAdd_empty[OF r3(4) db'])
  have s4: "transactions s4 = toArray tx_id (transactions s)"
    "categories s4 = toArray c_id (categories s)" "budgets s4 = toArray b_id (budgets s)"
    "settings s4 = settings s"
    using r3 by (simp_all add: s4_def)
  have "importData e' (exportData e s) Overwrite s
      = andThen r2 (\<lambda>s2. andThen (transactionsBulkAdd e' (toArray tx_id (transactions s)) s2)
          (\<lambda>s3. andThen (budgetsBulkAdd (toArray b_id (budgets s)) s3)
            (\<lambda>s4. (importSettings (data (exportData e s)) s4, None))))"
    by (simp add: importData_def Let_def s1_def r2_def exportData_def)
  also have "\<dots> = andThen r3
          (\<lambda>s3. andThen (budgetsBulkAdd (toArray b_id (budgets s)) s3)
            (\<lambda>s4. (importSettings (data (exportData e s)) s4, None)))"
    by (simp add: andThen_ok[OF r2(1)] r3_def)
  also have "\<dots> = andThen (budgetsBulkAdd (toArray b_id (budgets s)) (fst r3))
            (\<lambda>s4. (importSettings (data (exportData e s)) s4, None))"
    by (rule andThen_ok[OF r3(1)])
  also have "\<dots> = (importSettings (data (exportData e s)) s4, None)"
    unfolding r4 by (simp add: andThen_def)
  finally have eq: "importData e' (exportData e s) Overwrite s
      = (importSettings (data (exportData e s)) s4, None)" .
  show "snd (importData e' (exportData e s) Overwrite s) = None"
    by (simp add: eq)
  show "transactions (fst (importData e' (exportData e s) Overwrite s)) = toArray tx_id (transactions s)"
    by (simp add: eq importSettings_same(2) s4)
  show "categories (fst (importData e' (exportData e s) Overwrite s)) = toArray c_id (categories s)"
    by (simp add: eq importSettings_same(3) s4)
  show "budgets (fst (importData e' (exportData e s) Overwrite s)) = toArray b_id (budgets s)"
    by (simp add: eq importSettings_same(4) s4)
  show "settings (fst (importData e' (exportData e s) Overwrite s)) = settings s"
    by (simp add: eq importSettings_same(1)[OF s4(4)])
qed

text \<open>
  Claim C3. On a store whose tables have distinct keys, \<^verbatim>\<open>importData\<close> of the store's own
  \<^verbatim>\<open>exportData\<close> in overwrite mode succeeds and yields a store with the same rows of
  transactions and of categories, hence the same transactions without \<^verbatim>\<open>deletedAt\<close>, and
  the same settings: \<^verbatim>\<open>getActiveTransactions\<close> and every \<^verbatim>\<open>useTransactions\<close> and
  \<^verbatim>\<open>useCategories\<close> query answer as before the export.
\<close>

theorem import_export_roundtrip:
  assumes dt: "distinct (map tx_id (transactions s))"
      and dc: "distinct (map c_id (categories s))"
      and db: "distinct (map b_id (budgets s))"
  shows "snd (importData e' (exportData e s) Overwrite s) = None
     \<and> getActiveTransactions (fst (importData e' (exportData e s) Overwrite s))
         = getActiveTransactions s
     \<and> set (transactions (fst (importData e' (exportData e s) Overwrite s)))
         = set (transactions s)
     \<and> set (categories (fst (importData e' (exportData e s) Overwrite s)))
         = set (categories s)
     \<and> settings (fst (importData e' (exportData e s) Overwrite s)) = settings s
     \<and> useTransactions e0 filters so (fst (importData e' (exportData e s) Overwrite s))
         = useTransactions e0 filters so s
     \<and> useCategories ty (fst (importData e' (exportData e s) Overwrite s))
         = useCategories ty s
     \<and> filter (\<lambda>t. tx_deletedAt t = None)
          (toArray tx_id (transactions (fst (importData e' (exportData e s) Overwrite s))))
         = filter (\<lambda>t. tx_deletedAt t = None) (toArray tx_id (transactions s))"
proof -
  note r = importData_export[OF dt dc db, of e' e]
  have cats: "orderBy c_order c_id (toArray c_id (categories s)) = orderBy c_order c_id (categories s)"
    by (simp add: orderBy_def toArray_idem)
  show ?thesis
    using r cats
    by (simp add: getActiveTransactions_TypeError useTransactions_TypeError useCategories_def
        set_toArray toArray_idem)
qed

theorem import_export_roundtrip_witness:
  "distinct (map tx_id (transactions householdDatabase))
   \<and> distinct (map c_id (categories householdDatabase))
   \<and> distinct (map b_id (budgets householdDatabase))
   \<and> snd (importData exampleEnv (exportData exampleEnv householdDatabase) Overwrite householdDatabase) = None
   \<and> set (transactions
        (fst (importData exampleEnv (exportData exampleEnv householdDatabase) Overwrite householdDatabase)))
       = {deleted31, exampleTransaction, deleted29}
   \<and> filter (\<lambda>t. tx_deletedAt t = None)
        (toArray tx_id (transactions
          (fst (importData exampleEnv (exportData exampleEnv householdDatabase) Overwrite householdDatabase))))
       = [exampleTransaction]
   \<and> set (categories
        (fst (importData exampleEnv (exportData exampleEnv householdDatabase) Overwrite householdDatabase)))
       = {exampleCategory}
   \<and> settings
        (fst (importData exampleEnv (exportData exampleEnv householdDatabase) Overwrite householdDatabase))
       = Some exampleSettings"
proof -
  have h1: "distinct (map tx_id (transactions householdDatabase))"
    by (simp add: householdDatabase_def trashDatabase_def emptyDatabase_def deleted31_def
        deleted29_def exampleTransaction_def)
  have h2: "distinct (map c_id (categories householdDatabase))"
    by (simp add: householdDatabase_def)
  have h3: "distinct (map b_id (budgets householdDatabase))"
    by (simp add: householdDatabase_def trashDatabase_def emptyDatabase_def)
  have a: "filter (\<lambda>t. tx_deletedAt t = None) (toArray tx_id (transactions householdDatabase))
      = [exampleTransaction]"
    by (simp add: toArray_def householdDatabase_def trashDatabase_def emptyDatabase_def
        deleted31_def deleted29_def exampleTransaction_def)
  have b: "set (transactions householdDatabase) = {deleted31, exampleTransaction, deleted29}"
    by (simp add: householdDatabase_def trashDatabase_def emptyDatabase_def)
  show ?thesis
    using import_export_roundtrip[OF h1 h2 h3, of exampleEnv exampleEnv] h1 h2 h3 a b
    by (simp add: householdDatabase_def)
qed

section \<open>Monthly statistics\<close>

lemma bitLength_le:
  "0 \<le> m \<Longrightarrow> m < 2 ^ k \<Longrightarrow> bitLength m \<le> k"
proof (induction k arbitrary: m)
  case 0
  then have "m = 0" by simp
  then show ?case by simp
next
  case (Suc k)
  show ?case
  proof (cases "m \<le> 0")
    case True
    then show ?thesis by simp
  next
    case False
    have "0 \<le> m div 2" using Suc.prems(1) by simp
    moreover have "m div 2 < 2 ^ k" using Suc.prems(2) by simp
    ultimately have "bitLength (m div 2) \<le> k" by (rule Suc.IH)
    with False show ?thesis by (subst bitLength.simps) simp
  qed
qed

lemma roundToDouble_safe:
  assumes "\<bar>x\<bar> \<le> MAX_SAFE_INTEGER"
  shows "roundToDouble x = x"
proof -
  have "\<bar>x\<bar> < 2 ^ 53" using assms by (simp add: MAX_SAFE_INTEGER_def)
  then have "bitLength \<bar>x\<bar> \<le> 53" by (intro bitLength_le) simp_all
  then show ?thesis by (simp add: roundToDouble_def Let_def)
qed

lemma foldl_numberAdd:
  assumes "\<forall>t \<in> set xs. 0 \<le> f t" "0 \<le> a" "a + sum_list (map f xs) \<le> MAX_SAFE_INTEGER"
  shows "foldl (\<lambda>sum t. numberAdd sum (f t)) a xs = a + sum_list (map f xs)"
  using assms
proof (induction xs arbitrary: a)
  case Nil
  then show ?case by simp
next
  case (Cons x xs)
  have nn: "0 \<le> sum_list (map f xs)" using Cons.prems(1) by (intro sum_list_nonneg) auto
  have x0: "0 \<le> f x" using Cons.prems(1) by simp
  have "\<bar>a + f x\<bar> \<le> MAX_SAFE_INTEGER" using Cons.prems(2,3) nn x0 by simp
  then have step: "numberAdd a (f x) = a + f x" by (simp add: numberAdd_def roundToDouble_safe)
  have "foldl (\<lambda>sum t. numberAdd sum (f t)) (a + f x) xs = (a + f x) + sum_list (map f xs)"
    using Cons.prems x0 by (intro Cons.IH) simp_all
  with step show ?case by simp
qed

text \<open>
  What lines 130 to 143 of \<^verbatim>\<open>useMonthlyStats\<close> make of an array of transactions with
  amounts that are not negative and add up to at most \<^verbatim>\<open>Number.MAX_SAFE_INTEGER\<close>: the
  sums of the incomes and of the expenses, their difference, and the length of the array.
\<close>

lemma monthlyStatsOf_sums:
  assumes "\<forall>t \<in> set txs. 0 \<le> tx_amount t"
      and "sum_list (map tx_amount txs) \<le> MAX_SAFE_INTEGER"
  shows "monthlyStatsOf txs =
     \<lparr>income = sum_list (map tx_amount (filter (\<lambda>t. tx_type t = Income) txs)),
      expense = sum_list (map tx_amount (filter (\<lambda>t. tx_type t = Expense) txs)),
      balance = sum_list (map tx_amount (filter (\<lambda>t. tx_type t = Income) txs))
                - sum_list (map tx_amount (filter (\<lambda>t. tx_type t = Expense) txs)),
      transactionCount = length txs\<rparr>"
proof -
  have part: "0 \<le> sum_list (map tx_amount (filter P txs))
      \<and> sum_list (map tx_amount (filter P txs)) \<le> sum_list (map tx_amount txs)" for P
    using assms(1) by (induction txs) (auto simp: sum_list_nonneg)
  have fold: "foldl (\<lambda>sum t. numberAdd sum (tx_amount t)) 0 (filter P txs)
      = sum_list (map tx_amount (filter P txs))" for P
    using foldl_numberAdd[of "filter P txs" tx_amount 0] assms part[of P] by simp
  let ?i = "sum_list (map tx_amount (filter (\<lambda>t. tx_type t = Income) txs))"
  let ?x = "sum_list (map tx_amount (filter (\<lambda>t. tx_type t = Expense) txs))"
  have "\<bar>?i - ?x\<bar> \<le> MAX_SAFE_INTEGER"
    using part[of "\<lambda>t. tx_type t = Income"] part[of "\<lambda>t. tx_type t = Expense"] assms(2)
    by linarith
  then have "numberSub ?i ?x = ?i - ?x" by (simp add: numberSub_def roundToDouble_safe)
  then show ?thesis by (simp add: monthlyStatsOf_def Let_def fold)
qed

lemma monthTransactions_TypeError: "monthTransactions month s = Inl TypeError"
  by (simp add: monthTransactions_def Let_def whereEquals_undefined)

text \<open>
  Claim C4, at the example of the claim. On the store that holds exactly the expense of
  1000 on 2024-03-15 and the income of 5000 on 2024-03-01, \<^verbatim>\<open>useMonthlyStats('2024-03')\<close>
  delivers no statistics: its query \<^verbatim>\<open>where('deletedAt').equals(undefined)\<close> rejects with
  a \<^verbatim>\<open>TypeError\<close>. The lines that follow the query would make the claimed statistics of
  the two transactions.
\<close>

theorem useMonthlyStats_rejects:
  "transactions marchDatabase = [marchExpense, marchIncome]
   \<and> tx_deletedAt marchExpense = None \<and> tx_deletedAt marchIncome = None
   \<and> useMonthlyStats ''2024-03'' marchDatabase = Inl TypeError
   \<and> monthlyStatsOf [marchExpense, marchIncome]
       = \<lparr>income = 5000, expense = 1000, balance = 4000, transactionCount = 2\<rparr>"
  by code_simp

section \<open>Statistics by category\<close>

text \<open>
  Claim C8, on the store of March, whose income carries the id of a category that is
  gone. \<^verbatim>\<open>useCategoryStats('2024-03')\<close> delivers no entries, and \<^verbatim>\<open>useMonthlyStats\<close> no
  count: both start from the query \<^verbatim>\<open>where('deletedAt').equals(undefined)\<close>, which rejects
  with a \<^verbatim>\<open>TypeError\<close>. The lines that follow the query would group as the claim says: of
  the two transactions they make the one entry of the category that exists, and the
  statistics of the month count both.
\<close>

theorem useCategoryStats_rejects:
  "transactions marchDatabase = [marchExpense, marchIncome]
   \<and> categories marchDatabase = [exampleCategory]
   \<and> useCategoryStats ''2024-03'' marchDatabase = Inl TypeError
   \<and> monthTransactions ''2024-03'' marchDatabase = Inl TypeError
   \<and> categoryStatsOf [marchExpense, marchIncome] [exampleCategory]
       = [\<lparr>cs_categoryId = ''c1'', cs_categoryName = ''food'', cs_amount = 1000, cs_count = 1\<rparr>]
   \<and> transactionCount (monthlyStatsOf [marchExpense, marchIncome]) = 2"
  by code_simp

section \<open>Recent categories\<close>

lemma useRecentCategories_TypeError: "useRecentCategories limit s = Inl TypeError"
  by (simp add: useRecentCategories_def collectionOrderBy_def)

text \<open>
  Claim C9, at the call \<^verbatim>\<open>useRecentCategories(3)\<close> on the store of March with a later
  transaction. The call delivers no categories: \<^verbatim>\<open>where('deletedAt').equals(undefined)\<close>
  returns a collection, a collection has no method \<^verbatim>\<open>orderBy\<close>, and the call throws a
  \<^verbatim>\<open>TypeError\<close>. The lines that follow the query cut the distinct ids to \<open>limit\<close> before
  they resolve them: of the three transactions, latest first, they make the one category
  that exists for the limit 3 and none for the limit 1, where the one id kept is the id
  of the category that is gone.
\<close>

theorem useRecentCategories_rejects:
  "transactions aprilDatabase = [marchExpense, marchIncome, aprilIncome]
   \<and> categories aprilDatabase = [exampleCategory]
   \<and> useRecentCategories 3 aprilDatabase = Inl TypeError
   \<and> recentCategoriesOf 3 [aprilIncome, marchExpense, marchIncome] aprilDatabase = [exampleCategory]
   \<and> recentCategoriesOf 1 [aprilIncome, marchExpense, marchIncome] aprilDatabase = []"
  by code_simp

section \<open>Validation of the category form\<close>

lemma validateName_duplicate:
  assumes "c \<in> set cs" "toLowerCase (c_name c) = toLowerCase (trim (name formData))"
  shows "validateName formData None (Some cs) \<noteq> None"
    and "trim (name formData) \<noteq> [] \<Longrightarrow> length (trim (name formData)) \<le> 20 \<Longrightarrow>
           validateName formData None (Some cs) = Some NameDuplicate"
proof -
  have "find (\<lambda>c. Some (c_id c) \<noteq> map_option c_id None \<and>
                  toLowerCase (c_name c) = toLowerCase (trim (name formData))) cs \<noteq> None"
    using assms by (auto simp: find_None_iff)
  then show "validateName formData None (Some cs) \<noteq> None"
    and "trim (name formData) \<noteq> [] \<Longrightarrow> length (trim (name formData)) \<le> 20 \<Longrightarrow>
           validateName formData None (Some cs) = Some NameDuplicate"
    by (simp_all add: validateName_def Let_def)
qed

text \<open>
  The form in create mode once \<^verbatim>\<open>useCategories()\<close> has delivered a list \<open>cs\<close>: when a
  category of the list has the trimmed name of the form, case ignored, \<^verbatim>\<open>validateForm\<close>
  reports an error for the name and returns false, and \<^verbatim>\<open>handleSubmit\<close> returns with the
  errors and leaves the whole database as it was.
\<close>

lemma duplicate_name_rejected_when_loaded:
  assumes "c \<in> set cs"
      and "toLowerCase (c_name c) = toLowerCase (trim (name formData))"
  shows "snd (validateForm e formData None (Some cs)) = False"
    and "nameErr (fst (validateForm e formData None (Some cs))) \<noteq> None"
    and "handleSubmit e formData None (Some cs) s
           = (s, Rejected (fst (validateForm e formData None (Some cs))))"
proof -
  note dup = validateName_duplicate[OF assms]
  have v: "validateForm e formData None (Some cs)
      = (\<lparr>nameErr = validateName formData None (Some cs),
          budgetErr = validateBudget e formData\<rparr>, False)"
    using dup(1) by (simp add: validateForm_def Let_def)
  show "snd (validateForm e formData None (Some cs)) = False"
    and "nameErr (fst (validateForm e formData None (Some cs))) \<noteq> None"
    and "handleSubmit e formData None (Some cs) s
           = (s, Rejected (fst (validateForm e formData None (Some cs))))"
    using dup(1) by (simp_all add: v handleSubmit_def)
qed

lemma duplicate_name_rejected_example:
  "handleSubmit exampleEnv foodForm None (Some (useCategories None householdDatabase))
        householdDatabase
       = (householdDatabase, Rejected \<lparr>nameErr = Some NameDuplicate, budgetErr = None\<rparr>)"
  by code_simp

text \<open>
  Claim C7, at the form for \<^verbatim>\<open>Food\<close> on a store that holds the category \<^verbatim>\<open>food\<close>, submitted
  while the live query \<^verbatim>\<open>useCategories()\<close> has not delivered. The list is undefined,
  \<^verbatim>\<open>categories?.find\<close> finds nothing, and the check for duplicate names lets the name
  pass: \<^verbatim>\<open>validateForm\<close> returns true without an error, \<^verbatim>\<open>handleSubmit\<close> goes on to
  \<^verbatim>\<open>createCategory\<close>, and the store then holds both \<^verbatim>\<open>food\<close> and \<^verbatim>\<open>Food\<close>.
\<close>

theorem duplicate_name_created_while_loading:
  "map c_name (categories householdDatabase) = [''food'']
   \<and> trim (name foodForm) = ''Food''
   \<and> toLowerCase (trim (name foodForm)) = toLowerCase ''food''
   \<and> validateForm exampleEnv foodForm None None = (\<lparr>nameErr = None, budgetErr = None\<rparr>, True)
   \<and> snd (handleSubmit exampleEnv foodForm None None householdDatabase) = Created
   \<and> map c_name (categories (fst (handleSubmit exampleEnv foodForm None None householdDatabase)))
       = [''food'', ''Food'']"
  by code_simp

end
